theory Spec2Isabelle
  imports Complex_Main
begin

section \<open>The relational store (db.js, migrations/migrate-create-rentals.js)\<close>

text \<open>
  The tables are the ones created by \<^verbatim>\<open>db.js\<close> (users, todos) and by
  \<^verbatim>\<open>migrations/migrate-create-rentals.js\<close> (rentals, comments, likes). A table is the
  list of its rows; every column of the schema is a field of the row record. SQLite
  \<^verbatim>\<open>INTEGER\<close> columns are \<open>int\<close> (the limits of 64 bits are written out where the
  code meets them), \<^verbatim>\<open>TEXT\<close> columns are strings, and a column without \<^verbatim>\<open>NOT NULL\<close> is
  an \<open>option\<close>. A JavaScript number that holds an integer is the \<open>int\<close> it equals. The \<^verbatim>\<open>done\<close> column is
  only ever written with 0 or 1 by the application and is kept as a plain \<open>int\<close>.
  \<^verbatim>\<open>CURRENT_TIMESTAMP\<close> is an argument \<open>now\<close> of every operation that inserts.
\<close>

type_synonym timestamp = string

record user_row =
  user_id :: int
  user_email :: string
  user_password_hash :: string
  user_name :: "string option"
  user_created_at :: timestamp

record todo_row =
  todo_id :: int
  todo_user_id :: int
  todo_text :: string
  todo_done :: int
  todo_created_at :: timestamp

record rental_row =
  rental_id :: int
  rental_owner_id :: int
  rental_title :: string
  rental_description :: "string option"
  rental_price :: "real option"
  rental_location :: "string option"
  rental_images :: "string option"
  rental_created_at :: timestamp
  rental_updated_at :: timestamp

record comment_row =
  comment_id :: int
  comment_rental_id :: int
  comment_user_id :: int
  comment_text :: string
  comment_created_at :: timestamp

record like_row =
  like_id :: int
  like_rental_id :: int
  like_user_id :: int
  like_created_at :: timestamp

text \<open>
  The three \<open>_seq\<close> fields are the \<^verbatim>\<open>sqlite_sequence\<close> entries of the tables the modelled
  routes insert into: \<^verbatim>\<open>AUTOINCREMENT\<close> hands out one more than the largest id the table
  has ever held, as long as there is one.
\<close>

record store =
  users :: "user_row list"
  todos :: "todo_row list"
  rentals :: "rental_row list"
  comments :: "comment_row list"
  likes :: "like_row list"
  todos_seq :: int
  comments_seq :: int
  likes_seq :: int

text \<open>
  Integers on the JavaScript side are doubles. An integer column read through
  \<^verbatim>\<open>db.get\<close> or \<^verbatim>\<open>db.all\<close>, \<^verbatim>\<open>lastInsertRowid\<close>, and \<^verbatim>\<open>Number(...)\<close> of an integer literal
  all give the double nearest to the integer (ties to the even mantissa): exact up to
  \<open>2 ^ 53\<close> in magnitude, rounded to 53 significant bits above. \<open>js_number\<close> is that
  rounding, as a function on integers. What overflows to \<^verbatim>\<open>Infinity\<close> is given as
  \<open>2 ^ 1024\<close>, which like \<^verbatim>\<open>Infinity\<close> is above every 64-bit integer of the store; the
  model only compares these numbers. A double bound to a statement is compared with the
  stored integers by value.
\<close>

definition MAX_SAFE_INTEGER :: int where
  "MAX_SAFE_INTEGER = 9007199254740991"

fun bit_length :: "nat \<Rightarrow> nat" where
  "bit_length n = (if n = 0 then 0 else Suc (bit_length (n div 2)))"

definition round_magnitude :: "nat \<Rightarrow> nat" where
  "round_magnitude m =
     (let e = bit_length m - 53;
          q = m div 2 ^ e;
          r = m mod 2 ^ e;
          half = 2 ^ (e - 1);
          q' = (if half < r \<or> (r = half \<and> odd q) then q + 1 else q)
      in min (q' * 2 ^ e) (2 ^ 1024))"

definition js_number :: "int \<Rightarrow> int" where
  "js_number n =
     (if \<bar>n\<bar> \<le> 9007199254740992 then n else sgn n * int (round_magnitude (nat \<bar>n\<bar>)))"

datatype sqlite_error = SQLITE_CONSTRAINT | SQLITE_FULL

text \<open>
  The largest rowid. An \<^verbatim>\<open>AUTOINCREMENT\<close> table that has held it takes no further row:
  the \<^verbatim>\<open>INSERT\<close> fails with \<^verbatim>\<open>SQLITE_FULL\<close>.
\<close>

definition MAX_ROWID :: int where
  "MAX_ROWID = 9223372036854775807"

definition largest_rowid :: "int \<Rightarrow> int list \<Rightarrow> int" where
  "largest_rowid seq ids = fold max ids seq"

definition autoincrement :: "int \<Rightarrow> int list \<Rightarrow> sqlite_error + int" where
  "autoincrement seq ids =
     (if MAX_ROWID \<le> largest_rowid seq ids then Inl SQLITE_FULL
      else Inr (largest_rowid seq ids + 1))"

definition has_user :: "store \<Rightarrow> int \<Rightarrow> bool" where
  "has_user s uid = (\<exists>u \<in> set (users s). user_id u = uid)"

definition has_rental :: "store \<Rightarrow> int \<Rightarrow> bool" where
  "has_rental s rid = (\<exists>r \<in> set (rentals s). rental_id r = rid)"

definition has_like :: "store \<Rightarrow> int \<Rightarrow> int \<Rightarrow> bool" where
  "has_like s rid uid = (\<exists>l \<in> set (likes s). like_rental_id l = rid \<and> like_user_id l = uid)"

text \<open>\<^verbatim>\<open>SELECT COUNT(*) as count FROM likes WHERE rental_id = ?\<close>\<close>

definition count_likes :: "store \<Rightarrow> int \<Rightarrow> nat" where
  "count_likes s rid = length (filter (\<lambda>l. like_rental_id l = rid) (likes s))"

text \<open>\<^verbatim>\<open>SELECT id FROM rentals WHERE id = ?\<close> through \<^verbatim>\<open>db.get\<close>: the first row, if any.\<close>

definition select_rental :: "store \<Rightarrow> int \<Rightarrow> rental_row option" where
  "select_rental s rid = find (\<lambda>r. rental_id r = rid) (rentals s)"

text \<open>\<^verbatim>\<open>SELECT id FROM likes WHERE rental_id = ? AND user_id = ?\<close>\<close>

definition select_like :: "store \<Rightarrow> int \<Rightarrow> int \<Rightarrow> like_row option" where
  "select_like s rid uid =
     find (\<lambda>l. like_rental_id l = rid \<and> like_user_id l = uid) (likes s)"

text \<open>\<^verbatim>\<open>DELETE FROM likes WHERE id = ?\<close>, with the number the handler passes.\<close>

definition delete_like :: "store \<Rightarrow> int \<Rightarrow> store" where
  "delete_like s lid = s\<lparr>likes := filter (\<lambda>l. like_id l \<noteq> lid) (likes s)\<rparr>"

text \<open>
  \<^verbatim>\<open>INSERT INTO likes (rental_id, user_id) VALUES (?, ?)\<close>. The statement throws when a
  constraint of the table is violated: \<^verbatim>\<open>UNIQUE(rental_id, user_id)\<close> or one of the two
  foreign keys (rental and user must exist). The foreign keys are taken as enforced, as
  the schema declares them; the theorems about inserts therefore ask for a user that is
  in the \<^verbatim>\<open>users\<close> table, and hold as well for an engine that does not check them.
\<close>

definition insert_like :: "timestamp \<Rightarrow> store \<Rightarrow> int \<Rightarrow> int \<Rightarrow> sqlite_error + store" where
  "insert_like now s rid uid =
     (if has_like s rid uid \<or> \<not> has_rental s rid \<or> \<not> has_user s uid
      then Inl SQLITE_CONSTRAINT
      else
        (case autoincrement (likes_seq s) (map like_id (likes s)) of
           Inl e \<Rightarrow> Inl e
         | Inr new_id \<Rightarrow>
             Inr (s\<lparr>likes := likes s @
                       [\<lparr>like_id = new_id, like_rental_id = rid, like_user_id = uid,
                         like_created_at = now\<rparr>],
                   likes_seq := new_id\<rparr>)))"

section \<open>Responses and request validation (app.js)\<close>

text \<open>
  A response is \<^verbatim>\<open>res.status(n).json(...)\<close>: a failure carries the status, the
  \<^verbatim>\<open>message\<close> and, for a failed validation, the \<^verbatim>\<open>errors\<close> list of (field, message)
  pairs; a success carries the status and the payload.
\<close>

datatype 'a response =
  Json_error nat string "(string \<times> string) list"
| Json_ok nat 'a

text \<open>
  An exception thrown inside a handler reaches the global error handler at the end of
  \<^verbatim>\<open>app.js\<close>, which answers 500.
\<close>

definition internal_error :: "'a response" where
  "internal_error = Json_error 500 ''Internal server error'' []"

text \<open>
  \<^verbatim>\<open>validateRequest\<close>: when the validation chains collected an error the request is
  answered 400 and the handler does not run. \<^verbatim>\<open>formatValidationErrors\<close> turns every
  error into its field (\<^verbatim>\<open>err.param\<close>, the name the chain was declared for) and its
  message.
\<close>

definition validateRequest ::
  "(string \<times> string) list \<Rightarrow> 's \<Rightarrow> ('s \<times> 'a response) \<Rightarrow> 's \<times> 'a response" where
  "validateRequest errs s handler =
     (if errs \<noteq> [] then (s, Json_error 400 ''Validation failed'' errs) else handler)"

text \<open>
  The \<^verbatim>\<open>:id\<close> segment of a route as the validator sees it: either the text of an integer
  literal, with the integer it denotes, or anything else.
\<close>

datatype route_param = Not_int | Int_lit int

text \<open>\<^verbatim>\<open>param('id').isInt({ gt: 0 }).withMessage('id must be a positive integer')\<close>\<close>

fun id_errors :: "route_param \<Rightarrow> (string \<times> string) list" where
  "id_errors (Int_lit n) = (if 0 < n then [] else [(''id'', ''id must be a positive integer'')])"
| "id_errors Not_int = [(''id'', ''id must be a positive integer'')]"

text \<open>
  \<^verbatim>\<open>Number(req.params.id)\<close>: the double nearest to the literal. The handler only runs on
  a parameter that passed \<open>id_errors\<close>, so the value for \<open>Not_int\<close> is never used.
\<close>

fun Number :: "route_param \<Rightarrow> int" where
  "Number (Int_lit n) = js_number n"
| "Number Not_int = 0"

section \<open>Toggle like: POST /api/rentals/:id/like\<close>

text \<open>
  The handler reads (the two \<^verbatim>\<open>SELECT\<close>s) and then writes (the \<^verbatim>\<open>DELETE\<close> or the
  \<^verbatim>\<open>INSERT\<close>). Each statement is a transaction of its own, so the two halves are separate
  definitions: \<open>like_handler\<close> runs both on the same store, which is what one process
  does, and the write half can also be run on a store that another connection has changed
  since the read.
\<close>

datatype like_lookup = Rental_missing | Liked like_row | Not_liked

definition like_read :: "store \<Rightarrow> int \<Rightarrow> int \<Rightarrow> like_lookup" where
  "like_read s userId rentalId =
     (case select_rental s rentalId of
        None \<Rightarrow> Rental_missing
      | Some _ \<Rightarrow>
          (case select_like s rentalId userId of
             Some liked \<Rightarrow> Liked liked
           | None \<Rightarrow> Not_liked))"

definition like_write ::
  "timestamp \<Rightarrow> store \<Rightarrow> int \<Rightarrow> int \<Rightarrow> like_lookup \<Rightarrow> store \<times> bool response" where
  "like_write now s userId rentalId lk =
     (case lk of
        Rental_missing \<Rightarrow> (s, Json_error 404 ''Rental not found'' [])
      | Liked liked \<Rightarrow> (delete_like s (js_number (like_id liked)), Json_ok 200 False)
      | Not_liked \<Rightarrow>
          (case insert_like now s rentalId userId of
             Inl _ \<Rightarrow> (s, internal_error)
           | Inr s' \<Rightarrow> (s', Json_ok 200 True)))"

definition like_handler :: "timestamp \<Rightarrow> store \<Rightarrow> int \<Rightarrow> int \<Rightarrow> store \<times> bool response" where
  "like_handler now s userId rentalId =
     like_write now s userId rentalId (like_read s userId rentalId)"

definition like_route ::
  "timestamp \<Rightarrow> store \<Rightarrow> int \<Rightarrow> route_param \<Rightarrow> store \<times> bool response" where
  "like_route now s userId p =
     validateRequest (id_errors p) s (like_handler now s userId (Number p))"

section \<open>Todos: POST, GET, PATCH and DELETE /api/todos\<close>

text \<open>
  A value of a JSON body field, as far as the todo routes look at it: \<^verbatim>\<open>null\<close>, a boolean,
  a number (integers only) or a string. A field that is missing from the body
  (\<^verbatim>\<open>undefined\<close>) is \<open>None\<close>.
\<close>

datatype js_value = JS_null | JS_bool bool | JS_num int | JS_str string

text \<open>JavaScript truthiness, and \<^verbatim>\<open>!!v\<close>.\<close>

fun truthy :: "js_value \<Rightarrow> bool" where
  "truthy JS_null = False"
| "truthy (JS_bool b) = b"
| "truthy (JS_num n) = (n \<noteq> 0)"
| "truthy (JS_str s) = (s \<noteq> [])"

definition not_not :: "js_value \<Rightarrow> js_value" where
  "not_not v = JS_bool (truthy v)"

text \<open>The row object of \<^verbatim>\<open>SELECT id, text, created_at, done FROM todos ...\<close>\<close>

record todo_view =
  tv_id :: int
  tv_text :: string
  tv_created_at :: timestamp
  tv_done :: js_value

definition view_of_todo :: "todo_row \<Rightarrow> todo_view" where
  "view_of_todo t =
     \<lparr>tv_id = js_number (todo_id t), tv_text = todo_text t,
      tv_created_at = todo_created_at t, tv_done = JS_num (js_number (todo_done t))\<rparr>"

text \<open>\<^verbatim>\<open>todo.done = !!todo.done\<close>\<close>

definition normalize_done :: "todo_view \<Rightarrow> todo_view" where
  "normalize_done t = t\<lparr>tv_done := not_not (tv_done t)\<rparr>"

text \<open>\<^verbatim>\<open>SELECT id, user_id, text, done FROM todos WHERE id = ?\<close> through \<^verbatim>\<open>db.get\<close>\<close>

definition select_todo :: "store \<Rightarrow> int \<Rightarrow> todo_row option" where
  "select_todo s tid = find (\<lambda>t. todo_id t = tid) (todos s)"

text \<open>
  \<^verbatim>\<open>INSERT INTO todos (user_id, text, done) VALUES (?, ?, ?)\<close>; the foreign key wants the
  user to exist. The second component is \<^verbatim>\<open>lastInsertRowid\<close>.
\<close>

definition insert_todo ::
  "timestamp \<Rightarrow> store \<Rightarrow> int \<Rightarrow> string \<Rightarrow> int \<Rightarrow> sqlite_error + store \<times> int" where
  "insert_todo now s uid text done =
     (if \<not> has_user s uid then Inl SQLITE_CONSTRAINT
      else
        (case autoincrement (todos_seq s) (map todo_id (todos s)) of
           Inl e \<Rightarrow> Inl e
         | Inr new_id \<Rightarrow>
             Inr (s\<lparr>todos := todos s @
                       [\<lparr>todo_id = new_id, todo_user_id = uid, todo_text = text,
                         todo_done = done, todo_created_at = now\<rparr>],
                   todos_seq := new_id\<rparr>, js_number new_id)))"

text \<open>
  \<^verbatim>\<open>body('text').exists().withMessage('text is required').bail()
   .isLength({ min: 1 }).withMessage('text cannot be empty').trim().escape()\<close>:
  the length is checked before the text is trimmed and escaped. The sanitiser chain
  \<^verbatim>\<open>.trim().escape()\<close> is the argument \<open>san\<close> of the routes.
\<close>

fun text_required_errors :: "string option \<Rightarrow> (string \<times> string) list" where
  "text_required_errors None = [(''text'', ''text is required'')]"
| "text_required_errors (Some t) =
     (if 1 \<le> length t then [] else [(''text'', ''text cannot be empty'')])"

definition create_todo_handler ::
  "timestamp \<Rightarrow> store \<Rightarrow> int \<Rightarrow> string \<Rightarrow> store \<times> todo_view response" where
  "create_todo_handler now s userId text =
     (case insert_todo now s userId text 0 of
        Inl _ \<Rightarrow> (s, internal_error)
      | Inr (s', lastInsertRowid) \<Rightarrow>
          (case select_todo s' lastInsertRowid of
             None \<Rightarrow> (s', internal_error)
           | Some todo \<Rightarrow> (s', Json_ok 201 (normalize_done (view_of_todo todo)))))"

definition create_todo_route ::
  "(string \<Rightarrow> string) \<Rightarrow> timestamp \<Rightarrow> store \<Rightarrow> int \<Rightarrow> string option
     \<Rightarrow> store \<times> todo_view response" where
  "create_todo_route san now s userId text =
     validateRequest (text_required_errors text) s
       (case text of
          Some t \<Rightarrow> create_todo_handler now s userId (san t)
        | None \<Rightarrow> (s, internal_error))"

text \<open>
  \<^verbatim>\<open>SELECT id, text, created_at, done FROM todos WHERE user_id = ? ORDER BY id DESC\<close>, then
  \<^verbatim>\<open>todos.map(t => ({ ...t, done: !!t.done }))\<close>.
\<close>

definition list_todos :: "store \<Rightarrow> int \<Rightarrow> todo_view list response" where
  "list_todos s userId =
     Json_ok 200
       (map (\<lambda>t. normalize_done (view_of_todo t))
          (rev (sort_key todo_id (filter (\<lambda>t. todo_user_id t = userId) (todos s)))))"

record patch_body =
  pb_text :: "string option"
  pb_done :: "js_value option"

text \<open>\<^verbatim>\<open>body('text').optional().isLength({ min: 1 }).withMessage('text cannot be empty')\<close>\<close>

fun text_optional_errors :: "string option \<Rightarrow> (string \<times> string) list" where
  "text_optional_errors None = []"
| "text_optional_errors (Some t) =
     (if 1 \<le> length t then [] else [(''text'', ''text cannot be empty'')])"

text \<open>
  \<^verbatim>\<open>isBoolean()\<close> looks at the value as a string and accepts \<^verbatim>\<open>true\<close>, \<^verbatim>\<open>false\<close>,
  \<^verbatim>\<open>1\<close> and \<^verbatim>\<open>0\<close>. The chain has no sanitiser, so the handler sees the value as sent.
\<close>

fun isBoolean :: "js_value \<Rightarrow> bool" where
  "isBoolean JS_null = False"
| "isBoolean (JS_bool b) = True"
| "isBoolean (JS_num n) = (n = 0 \<or> n = 1)"
| "isBoolean (JS_str s) = (s = ''true'' \<or> s = ''false'' \<or> s = ''1'' \<or> s = ''0'')"

text \<open>\<^verbatim>\<open>body('done').optional().isBoolean().withMessage('done must be a boolean')\<close>\<close>

fun done_errors :: "js_value option \<Rightarrow> (string \<times> string) list" where
  "done_errors None = []"
| "done_errors (Some d) = (if isBoolean d then [] else [(''done'', ''done must be a boolean'')])"

definition patch_errors :: "route_param \<Rightarrow> patch_body \<Rightarrow> (string \<times> string) list" where
  "patch_errors p body =
     id_errors p @ text_optional_errors (pb_text body) @ done_errors (pb_done body)"

text \<open>
  The handler collects the \<^verbatim>\<open>SET\<close> clauses of its \<^verbatim>\<open>UPDATE\<close> with their parameters;
  \<^verbatim>\<open>UPDATE todos SET ... WHERE id = ?\<close> applies them to the rows with that id.
\<close>

datatype assignment = Set_text string | Set_done int

fun assign :: "assignment \<Rightarrow> todo_row \<Rightarrow> todo_row" where
  "assign (Set_text v) t = t\<lparr>todo_text := v\<rparr>"
| "assign (Set_done v) t = t\<lparr>todo_done := v\<rparr>"

definition update_todos :: "store \<Rightarrow> assignment list \<Rightarrow> int \<Rightarrow> store" where
  "update_todos s updates tid =
     s\<lparr>todos := map (\<lambda>t. if todo_id t = tid then fold assign updates t else t) (todos s)\<rparr>"

definition patch_todo_handler ::
  "store \<Rightarrow> int \<Rightarrow> int \<Rightarrow> patch_body \<Rightarrow> store \<times> todo_view response" where
  "patch_todo_handler s userId todoId body =
     (case select_todo s todoId of
        None \<Rightarrow> (s, Json_error 404 ''Todo not found'' [])
      | Some todo \<Rightarrow>
          if js_number (todo_user_id todo) \<noteq> userId
          then (s, Json_error 403 ''Not authorized to modify this todo'' [])
          else
            let updates =
                  (case pb_text body of None \<Rightarrow> [] | Some text \<Rightarrow> [Set_text text]) @
                  (case pb_done body of
                     None \<Rightarrow> []
                   | Some done \<Rightarrow> [Set_done (if truthy done then 1 else 0)])
            in if length updates = 0 then (s, Json_error 400 ''Nothing to update'' [])
               else
                 let s' = update_todos s updates todoId
                 in (case select_todo s' todoId of
                       None \<Rightarrow> (s', internal_error)
                     | Some updated \<Rightarrow>
                         (s', Json_ok 200 (normalize_done (view_of_todo updated)))))"

definition patch_todo_route ::
  "(string \<Rightarrow> string) \<Rightarrow> store \<Rightarrow> int \<Rightarrow> route_param \<Rightarrow> patch_body
     \<Rightarrow> store \<times> todo_view response" where
  "patch_todo_route san s userId p body =
     validateRequest (patch_errors p body) s
       (patch_todo_handler s userId (Number p)
          (body\<lparr>pb_text := map_option san (pb_text body)\<rparr>))"

definition delete_todo_handler :: "store \<Rightarrow> int \<Rightarrow> int \<Rightarrow> store \<times> string response" where
  "delete_todo_handler s userId todoId =
     (case select_todo s todoId of
        None \<Rightarrow> (s, Json_error 404 ''Todo not found'' [])
      | Some todo \<Rightarrow>
          if js_number (todo_user_id todo) \<noteq> userId
          then (s, Json_error 403 ''Not authorized to delete this todo'' [])
          else (s\<lparr>todos := filter (\<lambda>t. todo_id t \<noteq> todoId) (todos s)\<rparr>,
                Json_ok 200 ''Deleted''))"

definition delete_todo_route ::
  "store \<Rightarrow> int \<Rightarrow> route_param \<Rightarrow> store \<times> string response" where
  "delete_todo_route s userId p =
     validateRequest (id_errors p) s (delete_todo_handler s userId (Number p))"

section \<open>Comments: POST /api/rentals/:id/comments\<close>

text \<open>
  The row object of
  \<^verbatim>\<open>SELECT c.id, c.text, c.created_at, u.name as user_name FROM comments c JOIN users u
   ON c.user_id = u.id\<close>: one row for every user whose id is the comment's author.
\<close>

record comment_view =
  cv_id :: int
  cv_text :: string
  cv_created_at :: timestamp
  cv_user_name :: "string option"

definition comment_views :: "store \<Rightarrow> comment_row list \<Rightarrow> comment_view list" where
  "comment_views s cs =
     concat (map (\<lambda>c. map (\<lambda>u. \<lparr>cv_id = js_number (comment_id c), cv_text = comment_text c,
                                  cv_created_at = comment_created_at c,
                                  cv_user_name = user_name u\<rparr>)
                         (filter (\<lambda>u. user_id u = comment_user_id c) (users s))) cs)"

text \<open>\<^verbatim>\<open>INSERT INTO comments (rental_id, user_id, text) VALUES (?, ?, ?)\<close>\<close>

definition insert_comment ::
  "timestamp \<Rightarrow> store \<Rightarrow> int \<Rightarrow> int \<Rightarrow> string \<Rightarrow> sqlite_error + store \<times> int" where
  "insert_comment now s rid uid text =
     (if \<not> has_rental s rid \<or> \<not> has_user s uid then Inl SQLITE_CONSTRAINT
      else
        (case autoincrement (comments_seq s) (map comment_id (comments s)) of
           Inl e \<Rightarrow> Inl e
         | Inr new_id \<Rightarrow>
             Inr (s\<lparr>comments := comments s @
                       [\<lparr>comment_id = new_id, comment_rental_id = rid, comment_user_id = uid,
                         comment_text = text, comment_created_at = now\<rparr>],
                   comments_seq := new_id\<rparr>, js_number new_id)))"

text \<open>
  The payload is \<^verbatim>\<open>{ comment }\<close>, where \<^verbatim>\<open>comment\<close> is what \<^verbatim>\<open>db.get\<close> returned: the first
  row or \<^verbatim>\<open>undefined\<close>.
\<close>

definition comments_handler ::
  "timestamp \<Rightarrow> store \<Rightarrow> int \<Rightarrow> int \<Rightarrow> string \<Rightarrow> store \<times> comment_view option response" where
  "comments_handler now s userId rentalId text =
     (case select_rental s rentalId of
        None \<Rightarrow> (s, Json_error 404 ''Rental not found'' [])
      | Some _ \<Rightarrow>
          (case insert_comment now s rentalId userId text of
             Inl _ \<Rightarrow> (s, internal_error)
           | Inr (s', lastInsertRowid) \<Rightarrow>
               (s', Json_ok 201
                      (case comment_views s'
                              (filter (\<lambda>c. comment_id c = lastInsertRowid) (comments s')) of
                         [] \<Rightarrow> None
                       | comment # _ \<Rightarrow> Some comment))))"

definition comments_route ::
  "(string \<Rightarrow> string) \<Rightarrow> timestamp \<Rightarrow> store \<Rightarrow> int \<Rightarrow> route_param \<Rightarrow> string option
     \<Rightarrow> store \<times> comment_view option response" where
  "comments_route san now s userId p text =
     validateRequest (id_errors p @ text_required_errors text) s
       (case text of
          Some t \<Rightarrow> comments_handler now s userId (Number p) (san t)
        | None \<Rightarrow> (s, internal_error))"

section \<open>The feed: GET /api/feed\<close>

text \<open>
  The value of \<^verbatim>\<open>parseInt(req.query.limit)\<close> is an integer (as a double) or \<^verbatim>\<open>NaN\<close>
  (\<open>None\<close>); \<^verbatim>\<open>x || d\<close> takes \<open>d\<close> when \<open>x\<close> is falsy, and the falsy numbers are \<^verbatim>\<open>NaN\<close>
  and 0.
\<close>

definition js_or :: "int option \<Rightarrow> int \<Rightarrow> int" where
  "js_or x d = (case x of None \<Rightarrow> d | Some n \<Rightarrow> if n = 0 then d else n)"

text \<open>\<^verbatim>\<open>Math.min(Math.max(parseInt(req.query.limit) || 8, 1), 50)\<close>\<close>

definition feed_limit :: "int option \<Rightarrow> int" where
  "feed_limit q = min (max (js_or q 8) 1) 50"

text \<open>\<^verbatim>\<open>Math.max(parseInt(req.query.offset) || 0, 0)\<close>\<close>

definition feed_offset :: "int option \<Rightarrow> int" where
  "feed_offset q = max (js_or q 0) 0"

text \<open>
  The specification's reading of the page size, for comparison with \<open>feed_limit\<close>: the
  requested limit clamped to the interval from 1 to 50, and 8 when no limit is supplied.
\<close>

definition spec_effective_limit :: "int option \<Rightarrow> int" where
  "spec_effective_limit q = (case q of None \<Rightarrow> 8 | Some n \<Rightarrow> min (max n 1) 50)"

definition spec_effective_offset :: "int option \<Rightarrow> int" where
  "spec_effective_offset q = (case q of None \<Rightarrow> 0 | Some n \<Rightarrow> max n 0)"

text \<open>A decoded JSON value; \<^verbatim>\<open>JSON.parse\<close> itself is the argument \<open>parse\<close> of the feed,
  with \<open>None\<close> for a text it throws on.\<close>

datatype json =
  J_null | J_bool bool | J_num int | J_str string | J_arr "json list"
| J_obj "(string \<times> json) list"

text \<open>
  \<^verbatim>\<open>let images = []; try { images = JSON.parse(r.images || '[]'); } catch (e) { images = []; }\<close>
  A \<^verbatim>\<open>NULL\<close> column and the empty text are falsy.
\<close>

definition decode_images :: "(string \<Rightarrow> json option) \<Rightarrow> string option \<Rightarrow> json" where
  "decode_images parse images =
     (case parse (case images of None \<Rightarrow> ''[]'' | Some t \<Rightarrow> if t = [] then ''[]'' else t) of
        None \<Rightarrow> J_arr []
      | Some v \<Rightarrow> v)"

record feed_entry =
  fe_id :: int
  fe_title :: string
  fe_description :: "string option"
  fe_price :: "real option"
  fe_location :: "string option"
  fe_images :: json
  fe_owner :: "int \<times> string option"
  fe_created_at :: timestamp
  fe_comments :: "comment_view list"
  fe_likes :: int

record feed_page =
  fp_feed :: "feed_entry list"
  fp_offset :: int
  fp_limit :: int
  fp_total :: int
  fp_hasMore :: bool

text \<open>
  \<^verbatim>\<open>SELECT ... FROM rentals r JOIN users u ON r.owner_id = u.id ORDER BY r.id DESC
   LIMIT ? OFFSET ?\<close>. The statement wants 64-bit integers: an offset above the largest
  of them makes \<^verbatim>\<open>db.all\<close> throw, and the feed answers 500.
\<close>

definition feed_rows :: "store \<Rightarrow> int \<Rightarrow> int \<Rightarrow> (rental_row \<times> user_row) list" where
  "feed_rows s limit offset =
     take (nat limit) (drop (nat offset)
       (concat (map (\<lambda>r. map (\<lambda>u. (r, u))
                              (filter (\<lambda>u. user_id u = rental_owner_id r) (users s)))
                    (rev (sort_key rental_id (rentals s))))))"

definition feed_entry_of ::
  "(string \<Rightarrow> json option) \<Rightarrow> store \<Rightarrow> rental_row \<times> user_row \<Rightarrow> feed_entry" where
  "feed_entry_of parse s row =
     (case row of (r, u) \<Rightarrow>
        \<lparr>fe_id = js_number (rental_id r),
         fe_title = rental_title r,
         fe_description = rental_description r,
         fe_price = rental_price r,
         fe_location = rental_location r,
         fe_images = decode_images parse (rental_images r),
         fe_owner = (js_number (rental_owner_id r), user_name u),
         fe_created_at = rental_created_at r,
         fe_comments =
           take 5 (comment_views s
                     (sort_key comment_id
                        (filter (\<lambda>c. comment_rental_id c = js_number (rental_id r))
                           (comments s)))),
         fe_likes = js_number (int (count_likes s (js_number (rental_id r))))\<rparr>)"

definition feed ::
  "(string \<Rightarrow> json option) \<Rightarrow> store \<Rightarrow> int option \<Rightarrow> int option \<Rightarrow> feed_page response" where
  "feed parse s query_limit query_offset =
     (let limit = feed_limit query_limit;
          offset = feed_offset query_offset
      in if MAX_ROWID < offset then internal_error
         else
           let rows = feed_rows s limit offset;
               total = js_number (int (length (rentals s)));
               entries = map (feed_entry_of parse s) rows;
               hasMore = (js_number (offset + int (length rows)) < total)
           in Json_ok 200
                \<lparr>fp_feed = entries, fp_offset = offset, fp_limit = limit, fp_total = total,
                 fp_hasMore = hasMore\<rparr>)"

section \<open>Reading a response\<close>

fun status :: "'a response \<Rightarrow> nat" where
  "status (Json_error n m es) = n"
| "status (Json_ok n x) = n"

definition has_todo :: "store \<Rightarrow> int \<Rightarrow> bool" where
  "has_todo s tid = (\<exists>t \<in> set (todos s). todo_id t = tid)"

section \<open>What the schema keeps true of every store\<close>

text \<open>
  \<^verbatim>\<open>PRIMARY KEY AUTOINCREMENT\<close> gives distinct, positive ids, and
  \<^verbatim>\<open>UNIQUE(rental_id, user_id)\<close> gives at most one like row per pair. The ids and the
  sequence counters are moreover within \<^verbatim>\<open>Number.MAX_SAFE_INTEGER\<close>, so that every id
  the handlers read from the store or are handed by it is exact as a JavaScript number.
\<close>

definition wf_store :: "store \<Rightarrow> bool" where
  "wf_store s \<longleftrightarrow>
     distinct (map like_id (likes s)) \<and>
     distinct (map (\<lambda>l. (like_rental_id l, like_user_id l)) (likes s)) \<and>
     distinct (map todo_id (todos s)) \<and>
     list_all (\<lambda>t. 0 < todo_id t \<and> todo_id t \<le> MAX_SAFE_INTEGER \<and>
                   \<bar>todo_user_id t\<bar> \<le> MAX_SAFE_INTEGER) (todos s) \<and>
     list_all (\<lambda>r. 0 < rental_id r \<and> rental_id r \<le> MAX_SAFE_INTEGER) (rentals s) \<and>
     list_all (\<lambda>l. \<bar>like_id l\<bar> \<le> MAX_SAFE_INTEGER) (likes s) \<and>
     0 \<le> todos_seq s \<and> todos_seq s \<le> MAX_SAFE_INTEGER \<and>
     0 \<le> likes_seq s \<and> likes_seq s \<le> MAX_SAFE_INTEGER \<and>
     0 \<le> comments_seq s \<and> comments_seq s \<le> MAX_SAFE_INTEGER"

section \<open>A sample store\<close>

definition demo_store :: store where
  \<open>demo_store =
     \<lparr>users =
        [\<lparr>user_id = 1, user_email = ''a@x.com'', user_password_hash = ''h1'',
          user_name = Some ''Ann'', user_created_at = ''t0''\<rparr>,
         \<lparr>user_id = 2, user_email = ''b@x.com'', user_password_hash = ''h2'',
          user_name = None, user_created_at = ''t0''\<rparr>],
      todos =
        [\<lparr>todo_id = 1, todo_user_id = 1, todo_text = ''Write tests'', todo_done = 0,
          todo_created_at = ''t1''\<rparr>,
         \<lparr>todo_id = 2, todo_user_id = 2, todo_text = ''Buy milk'', todo_done = 1,
          todo_created_at = ''t2''\<rparr>],
      rentals =
        [\<lparr>rental_id = 1, rental_owner_id = 1, rental_title = ''Loft'',
          rental_description = None, rental_price = None, rental_location = None,
          rental_images = Some ''["/uploads/a.png"]'', rental_created_at = ''t1'', rental_updated_at = ''t1''\<rparr>,
         \<lparr>rental_id = 2, rental_owner_id = 2, rental_title = ''Cabin'',
          rental_description = Some ''By the lake'', rental_price = Some 900,
          rental_location = Some ''North'', rental_images = Some ''oops'',
          rental_created_at = ''t2'', rental_updated_at = ''t2''\<rparr>,
         \<lparr>rental_id = 3, rental_owner_id = 1, rental_title = ''Studio'',
          rental_description = None, rental_price = None, rental_location = None,
          rental_images = None, rental_created_at = ''t3'', rental_updated_at = ''t3''\<rparr>],
      comments =
        [\<lparr>comment_id = 1, comment_rental_id = 1, comment_user_id = 2,
          comment_text = ''Nice'', comment_created_at = ''t4''\<rparr>],
      likes =
        [\<lparr>like_id = 1, like_rental_id = 1, like_user_id = 2, like_created_at = ''t5''\<rparr>],
      todos_seq = 2, comments_seq = 1, likes_seq = 1\<rparr>\<close>

text \<open>A stand-in for \<^verbatim>\<open>JSON.parse\<close> that knows the two well-formed texts of the sample
  store and throws on every other text.\<close>

definition demo_parse :: "string \<Rightarrow> json option" where
  \<open>demo_parse t =
     (if t = ''[]'' then Some (J_arr [])
      else if t = ''["/uploads/a.png"]'' then Some (J_arr [J_str ''/uploads/a.png''])
      else None)\<close>

section \<open>Ids, lookups and the like table\<close>

lemma js_number_exact: "\<bar>n\<bar> \<le> 9007199254740992 \<Longrightarrow> js_number n = n"
  by (simp add: js_number_def)

lemma js_number_safe: "\<bar>n\<bar> \<le> MAX_SAFE_INTEGER \<Longrightarrow> js_number n = n"
  by (simp add: js_number_def MAX_SAFE_INTEGER_def)

lemma Number_safe: "0 < n \<Longrightarrow> n \<le> MAX_SAFE_INTEGER \<Longrightarrow> Number (Int_lit n) = n"
  by (simp add: js_number_safe)

lemma fold_max_ge: "(seq::int) \<le> fold max ids seq"
  by (induction ids arbitrary: seq) (auto intro: order_trans[OF max.cobounded2])

lemma fold_max_mem: "i \<in> set ids \<Longrightarrow> (i::int) \<le> fold max ids seq"
proof (induction ids arbitrary: seq)
  case Nil then show ?case by simp
next
  case (Cons a ids)
  show ?case
  proof (cases "i = a")
    case True
    have "max a seq \<le> fold max ids (max a seq)" by (rule fold_max_ge)
    with True show ?thesis by simp
  next
    case False with Cons show ?thesis by simp
  qed
qed

lemma fold_max_le: "seq \<le> b \<Longrightarrow> \<forall>i \<in> set ids. i \<le> b \<Longrightarrow> fold max ids seq \<le> (b::int)"
  by (induction ids arbitrary: seq) simp_all

lemma largest_rowid_fresh: "i \<in> set ids \<Longrightarrow> i < largest_rowid seq ids + 1"
  using fold_max_mem[of i ids seq] by (simp add: largest_rowid_def)

lemma largest_rowid_pos: "0 \<le> seq \<Longrightarrow> 0 < largest_rowid seq ids + 1"
  using fold_max_ge[of seq ids] by (simp add: largest_rowid_def)

text \<open>
  With the sequence counter and the ids within \<^verbatim>\<open>Number.MAX_SAFE_INTEGER\<close> the table has
  a next id, and JavaScript reads it exactly.
\<close>

lemma autoincrement_safe:
  assumes "0 \<le> seq" "seq \<le> MAX_SAFE_INTEGER" "\<forall>i \<in> set ids. i \<le> MAX_SAFE_INTEGER"
  shows "autoincrement seq ids = Inr (largest_rowid seq ids + 1)"
    and "js_number (largest_rowid seq ids + 1) = largest_rowid seq ids + 1"
proof -
  have le: "largest_rowid seq ids \<le> MAX_SAFE_INTEGER"
    using assms(2,3) by (simp add: largest_rowid_def fold_max_le)
  have ge: "0 \<le> largest_rowid seq ids"
    using assms(1) fold_max_ge[of seq ids] by (simp add: largest_rowid_def)
  from le show "autoincrement seq ids = Inr (largest_rowid seq ids + 1)"
    by (simp add: autoincrement_def MAX_ROWID_def MAX_SAFE_INTEGER_def)
  from le ge show "js_number (largest_rowid seq ids + 1) = largest_rowid seq ids + 1"
    by (simp add: js_number_def MAX_SAFE_INTEGER_def)
qed

lemma wf_likes_autoincrement:
  assumes "wf_store s"
  shows "autoincrement (likes_seq s) (map like_id (likes s)) =
           Inr (largest_rowid (likes_seq s) (map like_id (likes s)) + 1)"
    and "js_number (largest_rowid (likes_seq s) (map like_id (likes s)) + 1) =
           largest_rowid (likes_seq s) (map like_id (likes s)) + 1"
proof -
  from assms have a: "0 \<le> likes_seq s" "likes_seq s \<le> MAX_SAFE_INTEGER"
    "\<forall>i \<in> set (map like_id (likes s)). i \<le> MAX_SAFE_INTEGER"
    by (auto simp: wf_store_def list_all_iff)
  show "autoincrement (likes_seq s) (map like_id (likes s)) =
           Inr (largest_rowid (likes_seq s) (map like_id (likes s)) + 1)"
    by (rule autoincrement_safe(1)[OF a])
  show "js_number (largest_rowid (likes_seq s) (map like_id (likes s)) + 1) =
           largest_rowid (likes_seq s) (map like_id (likes s)) + 1"
    by (rule autoincrement_safe(2)[OF a])
qed

lemma wf_like_id_exact: "wf_store s \<Longrightarrow> l \<in> set (likes s) \<Longrightarrow> js_number (like_id l) = like_id l"
  by (simp add: wf_store_def list_all_iff js_number_safe)

lemma select_like_None: "select_like s rid uid = None \<longleftrightarrow> \<not> has_like s rid uid"
  by (auto simp: select_like_def has_like_def find_None_iff)

lemma select_like_Some:
  "select_like s rid uid = Some l \<Longrightarrow> l \<in> set (likes s) \<and> like_rental_id l = rid \<and> like_user_id l = uid"
  by (auto simp: select_like_def find_Some_iff)

lemma select_rental_None: "select_rental s rid = None \<longleftrightarrow> \<not> has_rental s rid"
  by (auto simp: select_rental_def has_rental_def find_None_iff)

lemma like_handler_missing:
  "\<not> has_rental s rid \<Longrightarrow> like_handler now s uid rid = (s, Json_error 404 ''Rental not found'' [])"
  using select_rental_None[of s rid]
  by (simp add: like_handler_def like_read_def like_write_def)

lemma like_handler_absent:
  assumes "has_rental s rid" "has_user s uid" "\<not> has_like s rid uid"
    and next_id: "autoincrement (likes_seq s) (map like_id (likes s)) = Inr n"
  shows "like_handler now s uid rid =
     (s\<lparr>likes := likes s @ [\<lparr>like_id = n, like_rental_id = rid, like_user_id = uid,
          like_created_at = now\<rparr>],
        likes_seq := n\<rparr>, Json_ok 200 True)"
proof -
  from assms(1) obtain r where "select_rental s rid = Some r"
    using select_rental_None[of s rid] by auto
  moreover from assms(3) have "select_like s rid uid = None" by (simp add: select_like_None)
  ultimately show ?thesis using assms
    by (simp add: like_handler_def like_read_def like_write_def insert_like_def)
qed

lemma like_handler_present:
  assumes "has_rental s rid" "has_like s rid uid"
  shows "\<exists>l. select_like s rid uid = Some l \<and>
     like_handler now s uid rid = (delete_like s (js_number (like_id l)), Json_ok 200 False)"
proof -
  from assms(1) obtain r where "select_rental s rid = Some r"
    using select_rental_None[of s rid] by auto
  moreover from assms(2) obtain l where "select_like s rid uid = Some l"
    using select_like_None[of s rid uid] by auto
  ultimately show ?thesis
    by (simp add: like_handler_def like_read_def like_write_def)
qed

lemma like_handler_present_wf:
  assumes "wf_store s" "has_rental s rid" "has_like s rid uid"
  shows "\<exists>l. select_like s rid uid = Some l \<and>
     like_handler now s uid rid = (delete_like s (like_id l), Json_ok 200 False)"
proof -
  from like_handler_present[OF assms(2,3), of now] obtain l where
    l: "select_like s rid uid = Some l"
    "like_handler now s uid rid = (delete_like s (js_number (like_id l)), Json_ok 200 False)"
    by blast
  from select_like_Some[OF l(1)] have "l \<in> set (likes s)" by simp
  with l wf_like_id_exact[OF assms(1)] show ?thesis by simp
qed

lemma filter_key_neq_distinct:
  "distinct (map f xs) \<Longrightarrow> l \<in> set xs \<Longrightarrow> filter (\<lambda>x. f x \<noteq> f l) xs = remove1 l xs"
proof (induction xs)
  case Nil then show ?case by simp
next
  case (Cons a xs)
  show ?case
  proof (cases "a = l")
    case True
    with Cons.prems have "f l \<notin> f ` set xs" by simp
    then have "\<forall>x\<in>set xs. f x \<noteq> f l" by (metis imageI)
    then have "filter (\<lambda>x. f x \<noteq> f l) xs = xs" by (simp add: filter_id_conv)
    with True show ?thesis by simp
  next
    case False
    with Cons.prems have "l \<in> set xs" "f a \<noteq> f l" by auto
    with Cons False show ?thesis by simp
  qed
qed

lemma has_like_delete:
  assumes "wf_store s" "l \<in> set (likes s)"
  shows "has_like (delete_like s (like_id l)) r u \<longleftrightarrow>
         has_like s r u \<and> (r, u) \<noteq> (like_rental_id l, like_user_id l)"
proof -
  from assms have d1: "distinct (map like_id (likes s))"
    and d2: "distinct (map (\<lambda>l. (like_rental_id l, like_user_id l)) (likes s))"
    by (simp_all add: wf_store_def)
  have eq: "likes (delete_like s (like_id l)) = remove1 l (likes s)"
    using filter_key_neq_distinct[OF d1 assms(2)] by (simp add: delete_like_def)
  from d2 have dl: "distinct (likes s)" by (simp add: distinct_map)
  have inj: "inj_on (\<lambda>l. (like_rental_id l, like_user_id l)) (set (likes s))"
    using d2 by (simp add: distinct_map)
  show ?thesis
  proof
    assume "has_like (delete_like s (like_id l)) r u"
    then obtain k where k: "k \<in> set (remove1 l (likes s))" "like_rental_id k = r" "like_user_id k = u"
      by (auto simp: has_like_def eq)
    from k(1) dl have "k \<in> set (likes s)" "k \<noteq> l" by auto
    with inj assms(2) have "(like_rental_id k, like_user_id k) \<noteq> (like_rental_id l, like_user_id l)"
      by (auto dest: inj_onD)
    with k \<open>k \<in> set (likes s)\<close> show "has_like s r u \<and> (r, u) \<noteq> (like_rental_id l, like_user_id l)"
      by (auto simp: has_like_def)
  next
    assume a: "has_like s r u \<and> (r, u) \<noteq> (like_rental_id l, like_user_id l)"
    then obtain k where k: "k \<in> set (likes s)" "like_rental_id k = r" "like_user_id k = u"
      by (auto simp: has_like_def)
    with a have "k \<noteq> l" by auto
    with k dl have "k \<in> set (remove1 l (likes s))" by simp
    with k show "has_like (delete_like s (like_id l)) r u"
      by (auto simp: has_like_def eq)
  qed
qed

lemma like_route_pos:
  "0 < rid \<Longrightarrow> rid \<le> MAX_SAFE_INTEGER \<Longrightarrow>
   like_route now s uid (Int_lit rid) = like_handler now s uid rid"
  by (simp add: like_route_def validateRequest_def js_number_safe)

lemma has_rental_pos: "wf_store s \<Longrightarrow> has_rental s rid \<Longrightarrow> 0 < rid \<and> rid \<le> MAX_SAFE_INTEGER"
  by (auto simp: wf_store_def has_rental_def list_all_iff)

lemma like_route_other_pairs:
  assumes wf: "wf_store s" and ne: "(r, u) \<noteq> (rid, uid)" and safe: "rid \<le> MAX_SAFE_INTEGER"
  shows "has_like (fst (like_route now s uid (Int_lit rid))) r u = has_like s r u"
proof (cases "0 < rid")
  case False
  then show ?thesis by (simp add: like_route_def validateRequest_def)
next
  case True
  then have route: "like_route now s uid (Int_lit rid) = like_handler now s uid rid"
    using safe by (rule like_route_pos)
  show ?thesis
  proof (cases "like_read s uid rid")
    case Rental_missing
    then show ?thesis by (simp add: route like_handler_def like_write_def)
  next
    case (Liked l)
    then have sel: "select_like s rid uid = Some l"
      by (auto simp: like_read_def split: option.splits)
    from select_like_Some[OF sel]
    have l: "l \<in> set (likes s)" "like_rental_id l = rid" "like_user_id l = uid"
      by simp_all
    from Liked have "fst (like_route now s uid (Int_lit rid)) = delete_like s (like_id l)"
      by (simp add: route like_handler_def like_write_def wf_like_id_exact[OF wf l(1)])
    then show ?thesis using has_like_delete[OF wf l(1), of r u] l ne by simp
  next
    case Not_liked
    then show ?thesis using ne
      by (auto simp: route like_handler_def like_write_def insert_like_def has_like_def
          split: sum.splits)
  qed
qed

text \<open>
  C1. Toggle like flips the presence of the (listing, user) pair. For a store that
  satisfies the schema's constraints, with its ids within \<^verbatim>\<open>Number.MAX_SAFE_INTEGER\<close>,
  and a user that exists: when the listing exists and the pair has a like row, the row
  is deleted and the answer is \<^verbatim>\<open>{liked:false}\<close>; when the listing exists and the pair
  has none, a row is inserted and the answer is \<^verbatim>\<open>{liked:true}\<close>; when the listing
  does not exist the answer is 404 \<^verbatim>\<open>Rental not found\<close> and the store is the one
  before (on the route for an id in the same range, in the handler for every number it
  is given). No other pair changes.
\<close>

theorem like_toggle_flips_pair:
  assumes wf: "wf_store s" and user: "has_user s uid"
  shows "(has_rental s rid \<and> has_like s rid uid \<longrightarrow>
            snd (like_route now s uid (Int_lit rid)) = Json_ok 200 False \<and>
            \<not> has_like (fst (like_route now s uid (Int_lit rid))) rid uid \<and>
            length (likes (fst (like_route now s uid (Int_lit rid)))) + 1 = length (likes s)) \<and>
         (has_rental s rid \<and> \<not> has_like s rid uid \<longrightarrow>
            snd (like_route now s uid (Int_lit rid)) = Json_ok 200 True \<and>
            has_like (fst (like_route now s uid (Int_lit rid))) rid uid \<and>
            length (likes (fst (like_route now s uid (Int_lit rid)))) = length (likes s) + 1) \<and>
         (\<not> has_rental s rid \<longrightarrow>
            like_handler now s uid rid = (s, Json_error 404 ''Rental not found'' [])) \<and>
         (\<not> has_rental s rid \<and> 0 < rid \<and> rid \<le> MAX_SAFE_INTEGER \<longrightarrow>
            like_route now s uid (Int_lit rid) = (s, Json_error 404 ''Rental not found'' [])) \<and>
         ((r, u) \<noteq> (rid, uid) \<and> rid \<le> MAX_SAFE_INTEGER \<longrightarrow>
            has_like (fst (like_route now s uid (Int_lit rid))) r u = has_like s r u)"
proof (intro conjI impI)
  assume a: "has_rental s rid \<and> has_like s rid uid"
  then have route: "like_route now s uid (Int_lit rid) = like_handler now s uid rid"
    using has_rental_pos[OF wf] like_route_pos by simp
  from a like_handler_present_wf[OF wf, of rid uid now] obtain l where
    sel: "select_like s rid uid = Some l" and
    h: "like_handler now s uid rid = (delete_like s (like_id l), Json_ok 200 False)"
    by auto
  from select_like_Some[OF sel]
  have l: "l \<in> set (likes s)" "like_rental_id l = rid" "like_user_id l = uid" by simp_all
  show "snd (like_route now s uid (Int_lit rid)) = Json_ok 200 False"
    by (simp add: route h)
  show "\<not> has_like (fst (like_route now s uid (Int_lit rid))) rid uid"
    using has_like_delete[OF wf l(1), of rid uid] l by (simp add: route h)
  from wf have d1: "distinct (map like_id (likes s))" by (simp add: wf_store_def)
  have eq: "likes (delete_like s (like_id l)) = remove1 l (likes s)"
    using filter_key_neq_distinct[OF d1 l(1)] by (simp add: delete_like_def)
  have "length (remove1 l (likes s)) + 1 = length (likes s)"
    using l(1) length_pos_if_in_set[OF l(1)] by (simp add: length_remove1)
  then show "length (likes (fst (like_route now s uid (Int_lit rid)))) + 1 = length (likes s)"
    by (simp add: route h eq)
next
  assume a: "has_rental s rid \<and> \<not> has_like s rid uid"
  then have route: "like_route now s uid (Int_lit rid) = like_handler now s uid rid"
    using has_rental_pos[OF wf] like_route_pos by simp
  from a user have h: "like_handler now s uid rid =
     (s\<lparr>likes := likes s @ [\<lparr>like_id = largest_rowid (likes_seq s) (map like_id (likes s)) + 1,
          like_rental_id = rid, like_user_id = uid, like_created_at = now\<rparr>],
        likes_seq := largest_rowid (likes_seq s) (map like_id (likes s)) + 1\<rparr>, Json_ok 200 True)"
    by (simp add: like_handler_absent[OF _ _ _ wf_likes_autoincrement(1)[OF wf]])
  show "snd (like_route now s uid (Int_lit rid)) = Json_ok 200 True"
    by (simp add: route h)
  show "has_like (fst (like_route now s uid (Int_lit rid))) rid uid"
    by (simp add: route h has_like_def)
  show "length (likes (fst (like_route now s uid (Int_lit rid)))) = length (likes s) + 1"
    by (simp add: route h)
next
  assume "\<not> has_rental s rid"
  then show "like_handler now s uid rid = (s, Json_error 404 ''Rental not found'' [])"
    by (rule like_handler_missing)
next
  assume "\<not> has_rental s rid \<and> 0 < rid \<and> rid \<le> MAX_SAFE_INTEGER"
  then show "like_route now s uid (Int_lit rid) = (s, Json_error 404 ''Rental not found'' [])"
    by (simp add: like_route_pos like_handler_missing)
next
  assume "(r, u) \<noteq> (rid, uid) \<and> rid \<le> MAX_SAFE_INTEGER"
  then show "has_like (fst (like_route now s uid (Int_lit rid))) r u = has_like s r u"
    using like_route_other_pairs[OF wf] by blast
qed

lemma wf_demo_store: "wf_store demo_store"
  by (simp add: wf_store_def demo_store_def MAX_SAFE_INTEGER_def)

theorem like_toggle_flips_pair_witness:
  "wf_store demo_store \<and> has_user demo_store 2 \<and> has_user demo_store 1 \<and>
   (has_rental demo_store 1 \<and> has_like demo_store 1 2) \<and>
   snd (like_route ''t6'' demo_store 2 (Int_lit 1)) = Json_ok 200 False \<and>
   \<not> has_like (fst (like_route ''t6'' demo_store 2 (Int_lit 1))) 1 2 \<and>
   (has_rental demo_store 1 \<and> \<not> has_like demo_store 1 1) \<and>
   snd (like_route ''t6'' demo_store 1 (Int_lit 1)) = Json_ok 200 True \<and>
   has_like (fst (like_route ''t6'' demo_store 1 (Int_lit 1))) 1 1 \<and>
   (\<not> has_rental demo_store 9 \<and> (0::int) < 9 \<and> 9 \<le> MAX_SAFE_INTEGER) \<and>
   like_route ''t6'' demo_store 1 (Int_lit 9) = (demo_store, Json_error 404 ''Rental not found'' []) \<and>
   ((1::int, 2::int) \<noteq> (1, 1) \<and> 1 \<le> MAX_SAFE_INTEGER) \<and>
   has_like (fst (like_route ''t6'' demo_store 1 (Int_lit 1))) 1 2 = has_like demo_store 1 2"
proof -
  have u2: "has_user demo_store 2" and u1: "has_user demo_store 1"
    by (simp_all add: has_user_def demo_store_def)
  have p: "has_rental demo_store 1 \<and> has_like demo_store 1 2"
    and a: "has_rental demo_store 1 \<and> \<not> has_like demo_store 1 1"
    and m: "\<not> has_rental demo_store 9 \<and> (0::int) < 9 \<and> 9 \<le> MAX_SAFE_INTEGER"
    by (simp_all add: has_rental_def has_like_def demo_store_def MAX_SAFE_INTEGER_def)
  have b: "(1::int) \<le> MAX_SAFE_INTEGER" by (simp add: MAX_SAFE_INTEGER_def)
  show ?thesis
    using wf_demo_store u1 u2 p a m b
      like_toggle_flips_pair[OF wf_demo_store u2, of 1 "''t6''" 1 1]
      like_toggle_flips_pair[OF wf_demo_store u1, of 1 "''t6''" 1 2]
      like_toggle_flips_pair[OF wf_demo_store u1, of 9 "''t6''" 1 2]
    by simp
qed

lemma find_append_none:
  "find P xs = None \<Longrightarrow> find P (xs @ ys) = find P ys"
  by (induction xs) (auto split: if_splits)

lemma length_filter_remove1:
  "l \<in> set xs \<Longrightarrow>
   length (filter P xs) = length (filter P (remove1 l xs)) + (if P l then 1 else 0)"
  by (induction xs) auto

lemma has_rental_likes_update [simp]:
  "has_rental (s\<lparr>likes := ls\<rparr>) rid = has_rental s rid"
  "has_rental (s\<lparr>likes_seq := n\<rparr>) rid = has_rental s rid"
  "has_rental (delete_like s lid) rid = has_rental s rid"
  by (simp_all add: has_rental_def delete_like_def)

lemma has_user_likes_update [simp]:
  "has_user (s\<lparr>likes := ls\<rparr>) uid = has_user s uid"
  "has_user (s\<lparr>likes_seq := n\<rparr>) uid = has_user s uid"
  "has_user (delete_like s lid) uid = has_user s uid"
  by (simp_all add: has_user_def delete_like_def)

lemma delete_like_wf: "wf_store s \<Longrightarrow> wf_store (delete_like s lid)"
  by (simp add: delete_like_def wf_store_def distinct_map_filter list_all_iff)

lemma like_twice_from_absent:
  assumes wf: "wf_store s" and rental: "has_rental s rid" and user: "has_user s uid"
    and absent: "\<not> has_like s rid uid"
  shows "like_handler now1 s uid rid = (s1, r1) \<Longrightarrow> like_handler now2 s1 uid rid = (s2, r2) \<Longrightarrow>
         r1 = Json_ok 200 True \<and> r2 = Json_ok 200 False \<and> likes s2 = likes s"
proof -
  let ?n = "largest_rowid (likes_seq s) (map like_id (likes s)) + 1"
  let ?new = "\<lparr>like_id = ?n, like_rental_id = rid, like_user_id = uid, like_created_at = now1\<rparr>"
  assume first: "like_handler now1 s uid rid = (s1, r1)"
    and second: "like_handler now2 s1 uid rid = (s2, r2)"
  from first like_handler_absent[OF rental user absent wf_likes_autoincrement(1)[OF wf], of now1]
  have s1: "s1 = s\<lparr>likes := likes s @ [?new], likes_seq := ?n\<rparr>" and r1: "r1 = Json_ok 200 True"
    by simp_all
  have rental1: "has_rental s1 rid" using rental by (simp add: s1)
  have like1: "has_like s1 rid uid" by (simp add: s1 has_like_def)
  from absent have "find (\<lambda>l. like_rental_id l = rid \<and> like_user_id l = uid) (likes s) = None"
    using select_like_None[of s rid uid] by (simp add: select_like_def)
  then have sel: "select_like s1 rid uid = Some ?new"
    by (simp add: select_like_def s1 find_append_none)
  from like_handler_present[OF rental1 like1, of now2] sel second
  have s2: "s2 = delete_like s1 ?n" and r2: "r2 = Json_ok 200 False"
    by (auto simp: wf_likes_autoincrement(2)[OF wf])
  have "\<forall>l \<in> set (likes s). like_id l \<noteq> ?n"
    using largest_rowid_fresh[of _ "map like_id (likes s)" "likes_seq s"] by fastforce
  then have "filter (\<lambda>l. like_id l \<noteq> ?n) (likes s) = likes s"
    by (simp add: filter_id_conv)
  then have "likes s2 = likes s" by (simp add: s2 s1 delete_like_def)
  with r1 r2 show ?thesis by simp
qed

lemma like_twice_from_present:
  assumes wf: "wf_store s" and rental: "has_rental s rid" and user: "has_user s uid"
    and present: "has_like s rid uid"
  shows "like_handler now1 s uid rid = (s1, r1) \<Longrightarrow> like_handler now2 s1 uid rid = (s2, r2) \<Longrightarrow>
         r1 = Json_ok 200 False \<and> r2 = Json_ok 200 True \<and>
         count_likes s2 r = count_likes s r \<and> has_like s2 r u = has_like s r u"
proof -
  assume first: "like_handler now1 s uid rid = (s1, r1)"
    and second: "like_handler now2 s1 uid rid = (s2, r2)"
  from like_handler_present_wf[OF wf rental present, of now1] first obtain l where
    sel: "select_like s rid uid = Some l" and s1: "s1 = delete_like s (like_id l)"
    and r1: "r1 = Json_ok 200 False"
    by auto
  from select_like_Some[OF sel]
  have l: "l \<in> set (likes s)" "like_rental_id l = rid" "like_user_id l = uid" by simp_all
  have del: "\<And>r u. has_like s1 r u \<longleftrightarrow> has_like s r u \<and> (r, u) \<noteq> (rid, uid)"
    using has_like_delete[OF wf l(1)] l by (simp add: s1)
  then have absent1: "\<not> has_like s1 rid uid" by simp
  have rental1: "has_rental s1 rid" and user1: "has_user s1 uid"
    using rental user by (simp_all add: s1)
  have wf1: "wf_store s1" unfolding s1 by (rule delete_like_wf[OF wf])
  let ?n = "largest_rowid (likes_seq s1) (map like_id (likes s1)) + 1"
  let ?new = "\<lparr>like_id = ?n, like_rental_id = rid, like_user_id = uid, like_created_at = now2\<rparr>"
  from second like_handler_absent[OF rental1 user1 absent1 wf_likes_autoincrement(1)[OF wf1], of now2]
  have s2: "s2 = s1\<lparr>likes := likes s1 @ [?new], likes_seq := ?n\<rparr>" and r2: "r2 = Json_ok 200 True"
    by simp_all
  from wf have d1: "distinct (map like_id (likes s))" by (simp add: wf_store_def)
  have likes1: "likes s1 = remove1 l (likes s)"
    using filter_key_neq_distinct[OF d1 l(1)] by (simp add: s1 delete_like_def)
  have "count_likes s r = count_likes s1 r + (if rid = r then 1 else 0)"
    using length_filter_remove1[OF l(1), of "\<lambda>l. like_rental_id l = r"] l(2)
    by (simp add: count_likes_def likes1)
  moreover have "count_likes s2 r = count_likes s1 r + (if rid = r then 1 else 0)"
    by (simp add: count_likes_def s2)
  ultimately have cnt: "count_likes s2 r = count_likes s r" by simp
  have "has_like s2 r u \<longleftrightarrow> has_like s1 r u \<or> (r, u) = (rid, uid)"
    by (auto simp: s2 has_like_def)
  with del present have "has_like s2 r u = has_like s r u" by auto
  with cnt r1 r2 show ?thesis by simp
qed

text \<open>
  C2. Toggle like twice on the same existing listing by the same user, with nothing in
  between, from a store that satisfies the schema's constraints with its ids within
  \<^verbatim>\<open>Number.MAX_SAFE_INTEGER\<close>: the first answer is \<^verbatim>\<open>{liked:true}\<close> or \<^verbatim>\<open>{liked:false}\<close> and the second
  is the other one, so after \<^verbatim>\<open>{liked:true}\<close> comes \<^verbatim>\<open>{liked:false}\<close>; the like count of
  every listing, and the presence of every pair, are the ones before the first call.
\<close>
theorem like_toggle_twice_involution:
  assumes wf: "wf_store s" and user: "has_user s uid" and rental: "has_rental s rid"
    and first: "like_route now1 s uid (Int_lit rid) = (s1, r1)"
    and second: "like_route now2 s1 uid (Int_lit rid) = (s2, r2)"
  shows "(r1 = Json_ok 200 True \<or> r1 = Json_ok 200 False) \<and>
         (r1 = Json_ok 200 True \<longrightarrow> r2 = Json_ok 200 False) \<and>
         (r1 = Json_ok 200 False \<longrightarrow> r2 = Json_ok 200 True) \<and>
         count_likes s2 r = count_likes s r \<and>
         has_like s2 r u = has_like s r u"
proof -
  have pos: "0 < rid" and safe: "rid \<le> MAX_SAFE_INTEGER"
    using has_rental_pos[OF wf rental] by simp_all
  from first have h1: "like_handler now1 s uid rid = (s1, r1)"
    by (simp add: like_route_pos[OF pos safe])
  from second have h2: "like_handler now2 s1 uid rid = (s2, r2)"
    by (simp add: like_route_pos[OF pos safe])
  show ?thesis
  proof (cases "has_like s rid uid")
    case True
    from like_twice_from_present[OF wf rental user True h1 h2, of r u]
    show ?thesis by simp
  next
    case False
    from like_twice_from_absent[OF wf rental user False h1 h2]
    show ?thesis by (simp add: count_likes_def has_like_def)
  qed
qed

theorem like_toggle_twice_involution_witness:
  "wf_store demo_store \<and> has_user demo_store 1 \<and> has_rental demo_store 1 \<and>
   snd (like_route ''t6'' demo_store 1 (Int_lit 1)) = Json_ok 200 True \<and>
   snd (like_route ''t7'' (fst (like_route ''t6'' demo_store 1 (Int_lit 1))) 1 (Int_lit 1))
     = Json_ok 200 False \<and>
   count_likes (fst (like_route ''t7'' (fst (like_route ''t6'' demo_store 1 (Int_lit 1))) 1 (Int_lit 1))) 1
     = count_likes demo_store 1 \<and>
   count_likes demo_store 1 = 1"
proof -
  have u: "has_user demo_store 1" by (simp add: has_user_def demo_store_def)
  have r: "has_rental demo_store 1" by (simp add: has_rental_def demo_store_def)
  have a: "\<not> has_like demo_store 1 1" by (simp add: has_like_def demo_store_def)
  have first: "snd (like_route ''t6'' demo_store 1 (Int_lit 1)) = Json_ok 200 True"
    using like_handler_absent[OF r u a wf_likes_autoincrement(1)[OF wf_demo_store], of "''t6''"]
    by (simp add: like_route_pos MAX_SAFE_INTEGER_def)
  have c: "count_likes demo_store 1 = 1" by (simp add: count_likes_def demo_store_def)
  have e1: "like_route ''t6'' demo_store 1 (Int_lit 1) =
      (fst (like_route ''t6'' demo_store 1 (Int_lit 1)),
       snd (like_route ''t6'' demo_store 1 (Int_lit 1)))"
    by simp
  have e2: "like_route ''t7'' (fst (like_route ''t6'' demo_store 1 (Int_lit 1))) 1 (Int_lit 1) =
      (fst (like_route ''t7'' (fst (like_route ''t6'' demo_store 1 (Int_lit 1))) 1 (Int_lit 1)),
       snd (like_route ''t7'' (fst (like_route ''t6'' demo_store 1 (Int_lit 1))) 1 (Int_lit 1)))"
    by simp
  show ?thesis
    using wf_demo_store u r first c
      like_toggle_twice_involution[OF wf_demo_store u r e1 e2, of 1 1]
    by simp
qed


section \<open>A duplicate like row at the insert\<close>

text \<open>
  The read half of a request saw no like of user 1 on listing 1; before its write half
  runs, another request of the same user inserts the row. The \<^verbatim>\<open>INSERT\<close> then violates
  \<^verbatim>\<open>UNIQUE(rental_id, user_id)\<close>, nothing catches the exception, and the answer is 500,
  not \<^verbatim>\<open>{liked:true}\<close>.
\<close>

theorem like_insert_duplicate_counterexample:
  "like_read demo_store 1 1 = Not_liked \<and>
   has_like (fst (like_handler ''t6'' demo_store 1 1)) 1 1 \<and>
   insert_like ''t7'' (fst (like_handler ''t6'' demo_store 1 1)) 1 1 = Inl SQLITE_CONSTRAINT \<and>
   like_write ''t7'' (fst (like_handler ''t6'' demo_store 1 1)) 1 1 (like_read demo_store 1 1) =
     (fst (like_handler ''t6'' demo_store 1 1), Json_error 500 ''Internal server error'' []) \<and>
   snd (like_write ''t7'' (fst (like_handler ''t6'' demo_store 1 1)) 1 1 (like_read demo_store 1 1))
     \<noteq> Json_ok 200 True"
proof -
  have u: "has_user demo_store 1" by (simp add: has_user_def demo_store_def)
  have r: "has_rental demo_store 1" by (simp add: has_rental_def demo_store_def)
  have a: "\<not> has_like demo_store 1 1" by (simp add: has_like_def demo_store_def)
  have rd: "like_read demo_store 1 1 = Not_liked"
    by (simp add: like_read_def select_rental_def select_like_def demo_store_def)
  have l: "has_like (fst (like_handler ''t6'' demo_store 1 1)) 1 1"
    by (simp add: like_handler_absent[OF r u a wf_likes_autoincrement(1)[OF wf_demo_store]]
        has_like_def)
  then have ins: "insert_like ''t7'' (fst (like_handler ''t6'' demo_store 1 1)) 1 1 = Inl SQLITE_CONSTRAINT"
    by (simp add: insert_like_def)
  show ?thesis using rd l ins by (simp add: like_write_def internal_error_def)
qed

text \<open>
  C7, as the code has it. When the read half found no like for the pair and the row is
  there by the time of the \<^verbatim>\<open>INSERT\<close>, the insert is rejected with a constraint
  violation, the store is left as it is, and the answer is 500
  \<^verbatim>\<open>Internal server error\<close>. The store the request read had no such row, so the row
  came from another connection between the two statements.
\<close>

theorem like_insert_duplicate_is_500:
  assumes "like_read s uid rid = Not_liked" and "has_like s' rid uid"
  shows "\<not> has_like s rid uid \<and>
         insert_like now s' rid uid = Inl SQLITE_CONSTRAINT \<and>
         like_write now s' uid rid (like_read s uid rid) =
           (s', Json_error 500 ''Internal server error'' [])"
proof -
  from assms(1) have "select_like s rid uid = None"
    by (auto simp: like_read_def split: option.splits)
  then have "\<not> has_like s rid uid" by (simp add: select_like_None)
  moreover from assms(2) have "insert_like now s' rid uid = Inl SQLITE_CONSTRAINT"
    by (simp add: insert_like_def)
  ultimately show ?thesis using assms(1) by (simp add: like_write_def internal_error_def)
qed

theorem like_insert_duplicate_is_500_witness:
  "like_read demo_store 1 1 = Not_liked \<and>
   has_like (fst (like_handler ''t6'' demo_store 1 1)) 1 1 \<and>
   \<not> has_like demo_store 1 1 \<and>
   like_write ''t7'' (fst (like_handler ''t6'' demo_store 1 1)) 1 1 (like_read demo_store 1 1) =
     (fst (like_handler ''t6'' demo_store 1 1), Json_error 500 ''Internal server error'' [])"
proof -
  have u: "has_user demo_store 1" by (simp add: has_user_def demo_store_def)
  have r: "has_rental demo_store 1" by (simp add: has_rental_def demo_store_def)
  have a: "\<not> has_like demo_store 1 1" by (simp add: has_like_def demo_store_def)
  have rd: "like_read demo_store 1 1 = Not_liked"
    by (simp add: like_read_def select_rental_def select_like_def demo_store_def)
  have l: "has_like (fst (like_handler ''t6'' demo_store 1 1)) 1 1"
    by (simp add: like_handler_absent[OF r u a wf_likes_autoincrement(1)[OF wf_demo_store]]
        has_like_def)
  show ?thesis
    using rd l like_insert_duplicate_is_500[OF rd l, of "''t7''"] by simp
qed

section \<open>Comments on a listing that does not exist\<close>

text \<open>
  Listing 9 does not exist and the text is empty: the validation chain answers 400
  before the handler looks the listing up.
\<close>

theorem comment_missing_listing_empty_text_counterexample:
  "\<not> has_rental demo_store 9 \<and>
   comments_route id ''t6'' demo_store 1 (Int_lit 9) (Some '''') =
     (demo_store, Json_error 400 ''Validation failed'' [(''text'', ''text cannot be empty'')])"
  by (simp add: has_rental_def demo_store_def comments_route_def validateRequest_def)

lemma comments_handler_missing:
  "\<not> has_rental s rid \<Longrightarrow> comments_handler now s uid rid t = (s, Json_error 404 ''Rental not found'' [])"
  using select_rental_None[of s rid] by (simp add: comments_handler_def)

text \<open>
  C3, as the code has it. For a listing id (a positive integer within
  \<^verbatim>\<open>Number.MAX_SAFE_INTEGER\<close>, which \<^verbatim>\<open>Number\<close> reads exactly) that is not in the
  store: a comment whose text has at least one character is answered 404
  \<^verbatim>\<open>Rental not found\<close>, with the store unchanged; an empty or a missing text is
  answered 400 \<^verbatim>\<open>Validation failed\<close> by the validation that runs first. The handler
  itself, whatever text reaches it, answers 404.
\<close>

theorem comment_missing_listing:
  assumes "\<not> has_rental s rid" and "0 < rid" and "rid \<le> MAX_SAFE_INTEGER"
  shows "(1 \<le> length t \<longrightarrow>
            comments_route san now s uid (Int_lit rid) (Some t) =
              (s, Json_error 404 ''Rental not found'' [])) \<and>
         comments_route san now s uid (Int_lit rid) (Some []) =
           (s, Json_error 400 ''Validation failed'' [(''text'', ''text cannot be empty'')]) \<and>
         comments_route san now s uid (Int_lit rid) None =
           (s, Json_error 400 ''Validation failed'' [(''text'', ''text is required'')]) \<and>
         comments_handler now s uid rid t = (s, Json_error 404 ''Rental not found'' [])"
  using assms
  by (simp add: comments_route_def validateRequest_def comments_handler_missing js_number_safe)

theorem comment_missing_listing_witness:
  "\<not> has_rental demo_store 9 \<and> (0::int) < 9 \<and> 9 \<le> MAX_SAFE_INTEGER \<and>
   1 \<le> length ''Nice'' \<and>
   comments_route id ''t6'' demo_store 1 (Int_lit 9) (Some ''Nice'') =
     (demo_store, Json_error 404 ''Rental not found'' [])"
proof -
  have m: "\<not> has_rental demo_store 9" by (simp add: has_rental_def demo_store_def)
  have b: "(9::int) \<le> MAX_SAFE_INTEGER" by (simp add: MAX_SAFE_INTEGER_def)
  show ?thesis
    using m b
      comment_missing_listing[where s = demo_store and rid = 9 and t = "''Nice''" and san = id
        and now = "''t6''" and uid = 1]
    by simp
qed

section \<open>Page size and offset of the feed\<close>

text \<open>
  A requested limit of 0 is falsy, so it is replaced by the default 8 before the
  clamping; clamping 0 to the interval from 1 to 50 would give 1.
\<close>

theorem feed_limit_zero_counterexample:
  "feed_limit (Some 0) = 8 \<and> spec_effective_limit (Some 0) = 1 \<and>
   feed_limit (Some 0) \<noteq> spec_effective_limit (Some 0)"
  by (simp add: feed_limit_def js_or_def spec_effective_limit_def)

text \<open>
  C5, as the code has it. The effective limit is 8 when the requested limit is missing,
  not a number or 0, and otherwise the requested limit clamped to the interval from 1
  to 50; it is always in that interval. The effective offset is the requested offset
  clamped to at least 0 (0 when missing). When the offset is a 64-bit integer the
  page query runs, and the page reports both and holds at most limit entries.
\<close>

theorem feed_limit_offset_effective:
  "feed_limit q = (if q = Some 0 then 8 else spec_effective_limit q) \<and>
   1 \<le> feed_limit q \<and> feed_limit q \<le> 50 \<and>
   feed_offset q' = spec_effective_offset q' \<and> 0 \<le> feed_offset q' \<and>
   (feed_offset q' \<le> MAX_ROWID \<longrightarrow>
      (\<exists>p. feed parse s q q' = Json_ok 200 p \<and> fp_limit p = feed_limit q \<and>
           fp_offset p = feed_offset q' \<and> int (length (fp_feed p)) \<le> feed_limit q))"
proof -
  have l: "feed_limit q = (if q = Some 0 then 8 else spec_effective_limit q)"
    by (simp add: feed_limit_def js_or_def spec_effective_limit_def split: option.splits)
  have lo: "1 \<le> feed_limit q" and hi: "feed_limit q \<le> 50"
    by (simp_all add: feed_limit_def)
  have off: "feed_offset q' = spec_effective_offset q'"
    by (simp add: feed_offset_def js_or_def spec_effective_offset_def split: option.splits)
  have nonneg: "0 \<le> feed_offset q'"
    by (simp add: feed_offset_def)
  have "int (length (feed_rows s (feed_limit q) (feed_offset q'))) \<le> feed_limit q"
    using lo by (simp add: feed_rows_def)
  then have page: "feed_offset q' \<le> MAX_ROWID \<longrightarrow>
      (\<exists>p. feed parse s q q' = Json_ok 200 p \<and> fp_limit p = feed_limit q \<and>
        fp_offset p = feed_offset q' \<and> int (length (fp_feed p)) \<le> feed_limit q)"
    by (simp add: feed_def Let_def)
  from l lo hi off nonneg page show ?thesis by blast
qed

theorem feed_limit_offset_effective_witness:
  "feed_limit (Some 70) = 50 \<and> feed_limit (Some (- 3)) = 1 \<and> feed_limit (Some 20) = 20 \<and>
   feed_limit None = 8 \<and> feed_limit (Some 0) = 8 \<and> feed_offset (Some (- 2)) = 0 \<and>
   feed_offset (Some 16) = 16 \<and> feed_offset (Some 1) \<le> MAX_ROWID \<and>
   status (feed demo_parse demo_store (Some 2) (Some 1)) = 200"
  using feed_limit_offset_effective[of "Some 70" "Some (- 2)"]
    feed_limit_offset_effective[of "Some (- 3)" "Some 16"]
    feed_limit_offset_effective[of "Some 20" None]
    feed_limit_offset_effective[of None None]
    feed_limit_offset_effective[of "Some 0" None]
    feed_limit_offset_effective[of "Some 2" "Some 1" demo_parse demo_store]
  by (auto simp: spec_effective_limit_def spec_effective_offset_def MAX_ROWID_def)


section \<open>Todos: ownership, frame and the done flag\<close>

lemma select_todo_None: "select_todo s tid = None \<longleftrightarrow> \<not> has_todo s tid"
  by (auto simp: select_todo_def has_todo_def find_None_iff)

lemma select_todo_Some:
  "select_todo s tid = Some t \<Longrightarrow> t \<in> set (todos s) \<and> todo_id t = tid"
  by (auto simp: select_todo_def find_Some_iff)

lemma find_key_distinct:
  "distinct (map f xs) \<Longrightarrow> x \<in> set xs \<Longrightarrow> find (\<lambda>y. f y = f x) xs = Some x"
proof (induction xs)
  case Nil then show ?case by simp
next
  case (Cons a xs)
  show ?case
  proof (cases "a = x")
    case True then show ?thesis by simp
  next
    case False
    with Cons.prems have "x \<in> set xs" by simp
    with Cons.prems have "f a \<noteq> f x" by force
    with Cons \<open>x \<in> set xs\<close> show ?thesis by simp
  qed
qed

lemma select_todo_mem:
  "wf_store s \<Longrightarrow> t \<in> set (todos s) \<Longrightarrow> select_todo s (todo_id t) = Some t"
  by (simp add: wf_store_def select_todo_def find_key_distinct)

lemma todo_id_pos:
  "wf_store s \<Longrightarrow> t \<in> set (todos s) \<Longrightarrow> 0 < todo_id t \<and> todo_id t \<le> MAX_SAFE_INTEGER"
  by (simp add: wf_store_def list_all_iff)

lemma todo_param_exact:
  "wf_store s \<Longrightarrow> t \<in> set (todos s) \<Longrightarrow>
   id_errors (Int_lit (todo_id t)) = [] \<and> Number (Int_lit (todo_id t)) = todo_id t"
  using todo_id_pos[of s t] by (simp add: js_number_safe)

lemma todo_owner_exact:
  "wf_store s \<Longrightarrow> t \<in> set (todos s) \<Longrightarrow> js_number (todo_user_id t) = todo_user_id t"
  by (simp add: wf_store_def list_all_iff js_number_safe)

lemma patch_todo_handler_404:
  "status (snd (patch_todo_handler s uid tid body)) = 404 \<longleftrightarrow> \<not> has_todo s tid"
proof (cases "select_todo s tid")
  case None
  then show ?thesis using select_todo_None[of s tid] by (simp add: patch_todo_handler_def)
next
  case (Some t)
  then have "has_todo s tid" using select_todo_None[of s tid] by simp
  with Some show ?thesis
    by (simp add: patch_todo_handler_def Let_def internal_error_def split: option.splits)
qed

lemma delete_todo_handler_404:
  "status (snd (delete_todo_handler s uid tid)) = 404 \<longleftrightarrow> \<not> has_todo s tid"
proof (cases "select_todo s tid")
  case None
  then show ?thesis using select_todo_None[of s tid] by (simp add: delete_todo_handler_def)
next
  case (Some t)
  then have "has_todo s tid" using select_todo_None[of s tid] by simp
  with Some show ?thesis by (simp add: delete_todo_handler_def)
qed

text \<open>
  Todo 1 of the sample store belongs to user 1. A PATCH of it by user 2 with an empty
  text is answered 400 by the field validation, which runs before the ownership check,
  not 403.
\<close>

theorem todo_not_owner_patch_empty_text_counterexample:
  "todo_id (hd (todos demo_store)) = 1 \<and> todo_user_id (hd (todos demo_store)) = 1 \<and>
   patch_todo_route id demo_store 2 (Int_lit 1) \<lparr>pb_text = Some '''', pb_done = None\<rparr> =
     (demo_store, Json_error 400 ''Validation failed'' [(''text'', ''text cannot be empty'')]) \<and>
   status (snd (patch_todo_route id demo_store 2 (Int_lit 1)
                 \<lparr>pb_text = Some '''', pb_done = None\<rparr>)) \<noteq> 403"
  by (simp add: demo_store_def patch_todo_route_def validateRequest_def patch_errors_def)

text \<open>
  C4, as the code has it. A todo that exists and belongs to another user, in a store
  that satisfies the schema's constraints with its ids within
  \<^verbatim>\<open>Number.MAX_SAFE_INTEGER\<close>: DELETE is answered 403; PATCH is answered 403 when the
  body passes the field validation, and 400 \<^verbatim>\<open>Validation failed\<close> when it does not;
  in every case the store is the one before. The two handlers answer 403 whatever the
  body, and answer 404 exactly when no todo has the id they are given.
\<close>
theorem todo_not_owner_forbidden:
  assumes wf: "wf_store s" and t: "t \<in> set (todos s)" and other: "todo_user_id t \<noteq> uid"
  shows "patch_todo_handler s uid (todo_id t) body =
           (s, Json_error 403 ''Not authorized to modify this todo'' []) \<and>
         delete_todo_handler s uid (todo_id t) =
           (s, Json_error 403 ''Not authorized to delete this todo'' []) \<and>
         delete_todo_route s uid (Int_lit (todo_id t)) =
           (s, Json_error 403 ''Not authorized to delete this todo'' []) \<and>
         patch_todo_route san s uid (Int_lit (todo_id t)) body =
           (s, if patch_errors (Int_lit (todo_id t)) body = []
               then Json_error 403 ''Not authorized to modify this todo'' []
               else Json_error 400 ''Validation failed'' (patch_errors (Int_lit (todo_id t)) body)) \<and>
         (status (snd (patch_todo_handler s uid' tid body')) = 404 \<longleftrightarrow> \<not> has_todo s tid) \<and>
         (status (snd (delete_todo_handler s uid' tid)) = 404 \<longleftrightarrow> \<not> has_todo s tid)"
proof -
  have sel: "select_todo s (todo_id t) = Some t" by (rule select_todo_mem[OF wf t])
  note ex = todo_param_exact[OF wf t]
  have p: "\<And>b. patch_todo_handler s uid (todo_id t) b =
      (s, Json_error 403 ''Not authorized to modify this todo'' [])"
    using other by (simp add: patch_todo_handler_def sel todo_owner_exact[OF wf t])
  have d: "delete_todo_handler s uid (todo_id t) =
      (s, Json_error 403 ''Not authorized to delete this todo'' [])"
    using other by (simp add: delete_todo_handler_def sel todo_owner_exact[OF wf t])
  have dr: "delete_todo_route s uid (Int_lit (todo_id t)) =
      (s, Json_error 403 ''Not authorized to delete this todo'' [])"
    using ex by (simp add: delete_todo_route_def validateRequest_def d)
  have pr: "patch_todo_route san s uid (Int_lit (todo_id t)) body =
           (s, if patch_errors (Int_lit (todo_id t)) body = []
               then Json_error 403 ''Not authorized to modify this todo'' []
               else Json_error 400 ''Validation failed'' (patch_errors (Int_lit (todo_id t)) body))"
    using ex by (simp add: patch_todo_route_def validateRequest_def p)
  from p[of body] d dr pr patch_todo_handler_404[of s uid' tid body'] delete_todo_handler_404[of s uid' tid]
  show ?thesis by blast
qed

theorem todo_not_owner_forbidden_witness:
  "wf_store demo_store \<and> hd (todos demo_store) \<in> set (todos demo_store) \<and>
   todo_user_id (hd (todos demo_store)) \<noteq> 2 \<and> todo_id (hd (todos demo_store)) = 1 \<and>
   patch_todo_route id demo_store 2 (Int_lit 1) \<lparr>pb_text = None, pb_done = Some (JS_bool True)\<rparr> =
     (demo_store, Json_error 403 ''Not authorized to modify this todo'' []) \<and>
   delete_todo_route demo_store 2 (Int_lit 1) =
     (demo_store, Json_error 403 ''Not authorized to delete this todo'' [])"
proof -
  have m: "hd (todos demo_store) \<in> set (todos demo_store)"
    and o: "todo_user_id (hd (todos demo_store)) \<noteq> 2"
    and i: "todo_id (hd (todos demo_store)) = 1"
    by (simp_all add: demo_store_def)
  have e: "patch_errors (Int_lit 1) \<lparr>pb_text = None, pb_done = Some (JS_bool True)\<rparr> = []"
    by (simp add: patch_errors_def)
  show ?thesis
    using wf_demo_store m o i e
      todo_not_owner_forbidden[OF wf_demo_store m o,
        where body = "\<lparr>pb_text = None, pb_done = Some (JS_bool True)\<rparr>" and san = id]
    by simp
qed

text \<open>
  C9. PATCH of an existing todo by its owner with a body that supplies neither
  \<^verbatim>\<open>text\<close> nor \<^verbatim>\<open>done\<close>, in a store that satisfies the schema's constraints with
  its ids within \<^verbatim>\<open>Number.MAX_SAFE_INTEGER\<close>: the answer is 400 \<^verbatim>\<open>Nothing to update\<close> and the store is
  the one before.
\<close>
theorem patch_nothing_to_update:
  assumes wf: "wf_store s" and t: "t \<in> set (todos s)" and owner: "todo_user_id t = uid"
    and none: "pb_text body = None" "pb_done body = None"
  shows "patch_todo_route san s uid (Int_lit (todo_id t)) body =
           (s, Json_error 400 ''Nothing to update'' []) \<and>
         patch_todo_handler s uid (todo_id t) body = (s, Json_error 400 ''Nothing to update'' [])"
proof -
  have sel: "select_todo s (todo_id t) = Some t" by (rule select_todo_mem[OF wf t])
  have ox: "js_number (todo_user_id t) = uid"
    using owner todo_owner_exact[OF wf t] by simp
  have h: "\<And>b. pb_text b = None \<Longrightarrow> pb_done b = None \<Longrightarrow>
      patch_todo_handler s uid (todo_id t) b = (s, Json_error 400 ''Nothing to update'' [])"
    using ox by (simp add: patch_todo_handler_def sel)
  note ex = todo_param_exact[OF wf t]
  have "patch_errors (Int_lit (todo_id t)) body = []"
    using ex none by (simp add: patch_errors_def)
  then have "patch_todo_route san s uid (Int_lit (todo_id t)) body =
      patch_todo_handler s uid (todo_id t) (body\<lparr>pb_text := map_option san (pb_text body)\<rparr>)"
    using ex by (simp add: patch_todo_route_def validateRequest_def)
  with h[of body] h[of "body\<lparr>pb_text := map_option san (pb_text body)\<rparr>"] none
  show ?thesis by simp
qed

theorem patch_nothing_to_update_witness:
  "wf_store demo_store \<and> hd (todos demo_store) \<in> set (todos demo_store) \<and>
   todo_user_id (hd (todos demo_store)) = 1 \<and> todo_id (hd (todos demo_store)) = 1 \<and>
   pb_text \<lparr>pb_text = None, pb_done = None\<rparr> = None \<and>
   pb_done \<lparr>pb_text = None, pb_done = None\<rparr> = None \<and>
   patch_todo_route id demo_store 1 (Int_lit 1) \<lparr>pb_text = None, pb_done = None\<rparr> =
     (demo_store, Json_error 400 ''Nothing to update'' [])"
proof -
  have m: "hd (todos demo_store) \<in> set (todos demo_store)"
    and o: "todo_user_id (hd (todos demo_store)) = 1"
    and i: "todo_id (hd (todos demo_store)) = 1"
    by (simp_all add: demo_store_def)
  show ?thesis
    using wf_demo_store m o i
      patch_nothing_to_update[OF wf_demo_store m o,
        where body = "\<lparr>pb_text = None, pb_done = None\<rparr>" and san = id]
    by simp
qed

lemma patch_todo_handler_ok:
  assumes "patch_todo_handler s uid tid body = (s', Json_ok st v)"
  shows "\<exists>t. select_todo s tid = Some t \<and> js_number (todo_user_id t) = uid \<and>
           (pb_text body \<noteq> None \<or> pb_done body \<noteq> None) \<and>
           s' = s\<lparr>todos := map (\<lambda>t. if todo_id t = tid
                    then t\<lparr>todo_text := (case pb_text body of None \<Rightarrow> todo_text t | Some x \<Rightarrow> x),
                           todo_done := (case pb_done body of None \<Rightarrow> todo_done t
                                         | Some d \<Rightarrow> if truthy d then 1 else 0)\<rparr>
                    else t) (todos s)\<rparr> \<and>
           (\<exists>u. select_todo s' tid = Some u \<and> v = normalize_done (view_of_todo u)) \<and> st = 200"
proof (cases "select_todo s tid")
  case None
  with assms show ?thesis by (simp add: patch_todo_handler_def)
next
  case (Some t)
  show ?thesis
  proof (cases "pb_text body")
    case None
    note tx = None
    show ?thesis
    proof (cases "pb_done body")
      case None
      with assms Some tx show ?thesis
        by (simp add: patch_todo_handler_def split: if_splits)
    next
      case (Some d)
      with assms \<open>select_todo s tid = Some t\<close> tx show ?thesis
        by (auto simp: patch_todo_handler_def update_todos_def Let_def internal_error_def
            split: if_splits option.splits)
    qed
  next
    case (Some x)
    note tx = Some
    show ?thesis
    proof (cases "pb_done body")
      case None
      with assms \<open>select_todo s tid = Some t\<close> tx show ?thesis
        by (auto simp: patch_todo_handler_def update_todos_def Let_def internal_error_def
            split: if_splits option.splits)
    next
      case (Some d)
      with assms \<open>select_todo s tid = Some t\<close> tx show ?thesis
        by (auto simp: patch_todo_handler_def update_todos_def Let_def internal_error_def
            split: if_splits option.splits)
    qed
  qed
qed

lemma patch_todo_route_ok:
  assumes "patch_todo_route san s uid p body = (s', Json_ok st v)"
  shows "patch_errors p body = [] \<and>
         patch_todo_handler s uid (Number p) (body\<lparr>pb_text := map_option san (pb_text body)\<rparr>)
           = (s', Json_ok st v)"
  using assms by (simp add: patch_todo_route_def validateRequest_def split: if_splits)

text \<open>
  C8. A PATCH that succeeds was made by the owner of the todo (the user id of the
  request is the owner column as the handler reads it, which is the column itself in a
  store with its ids within \<^verbatim>\<open>Number.MAX_SAFE_INTEGER\<close>), and changes nothing but
  the \<^verbatim>\<open>todos\<close> table. Row by row: id, creation time and owner are kept; a row with
  another id is kept whole; without \<^verbatim>\<open>text\<close> in the body every text is kept, without
  \<^verbatim>\<open>done\<close> every done flag is kept; the row with the id takes the supplied
  (sanitised) text and the supplied done flag as 0 or 1.
\<close>
theorem patch_changes_only_supplied_fields:
  assumes ok: "patch_todo_route san s uid p body = (s', Json_ok st v)"
  shows "s' = s\<lparr>todos := todos s'\<rparr> \<and>
         length (todos s') = length (todos s) \<and>
         (\<exists>t \<in> set (todos s). todo_id t = Number p \<and> js_number (todo_user_id t) = uid) \<and>
         (wf_store s \<longrightarrow>
            (\<exists>t \<in> set (todos s). todo_id t = Number p \<and> todo_user_id t = uid)) \<and>
         (\<forall>i < length (todos s).
            todo_id (todos s' ! i) = todo_id (todos s ! i) \<and>
            todo_created_at (todos s' ! i) = todo_created_at (todos s ! i) \<and>
            todo_user_id (todos s' ! i) = todo_user_id (todos s ! i) \<and>
            (todo_id (todos s ! i) \<noteq> Number p \<longrightarrow> todos s' ! i = todos s ! i) \<and>
            (pb_text body = None \<longrightarrow> todo_text (todos s' ! i) = todo_text (todos s ! i)) \<and>
            (pb_done body = None \<longrightarrow> todo_done (todos s' ! i) = todo_done (todos s ! i)) \<and>
            (todo_id (todos s ! i) = Number p \<longrightarrow>
               (\<forall>x. pb_text body = Some x \<longrightarrow> todo_text (todos s' ! i) = san x) \<and>
               (\<forall>d. pb_done body = Some d \<longrightarrow>
                    todo_done (todos s' ! i) = (if truthy d then 1 else 0))))"
proof -
  let ?b = "body\<lparr>pb_text := map_option san (pb_text body)\<rparr>"
  let ?f = "\<lambda>t. if todo_id t = Number p
              then t\<lparr>todo_text := (case pb_text ?b of None \<Rightarrow> todo_text t | Some x \<Rightarrow> x),
                     todo_done := (case pb_done ?b of None \<Rightarrow> todo_done t
                                   | Some d \<Rightarrow> if truthy d then 1 else 0)\<rparr>
              else t"
  from patch_todo_route_ok[OF ok]
  have h: "patch_todo_handler s uid (Number p) ?b = (s', Json_ok st v)" by simp
  from patch_todo_handler_ok[OF h] obtain t where
    sel: "select_todo s (Number p) = Some t" and own: "js_number (todo_user_id t) = uid"
    and s': "s' = s\<lparr>todos := map ?f (todos s)\<rparr>"
    by blast
  have td: "todos s' = map ?f (todos s)" by (subst s') simp
  have frame: "s' = s\<lparr>todos := todos s'\<rparr>" unfolding td by (rule s')
  have len: "length (todos s') = length (todos s)" by (simp add: td)
  from select_todo_Some[OF sel] own
  have ex: "\<exists>t \<in> set (todos s). todo_id t = Number p \<and> js_number (todo_user_id t) = uid"
    by blast
  from select_todo_Some[OF sel] own
  have exw: "wf_store s \<longrightarrow>
      (\<exists>t \<in> set (todos s). todo_id t = Number p \<and> todo_user_id t = uid)"
    using todo_owner_exact[of s t] by auto
  have rows: "\<forall>i < length (todos s).
            todo_id (todos s' ! i) = todo_id (todos s ! i) \<and>
            todo_created_at (todos s' ! i) = todo_created_at (todos s ! i) \<and>
            todo_user_id (todos s' ! i) = todo_user_id (todos s ! i) \<and>
            (todo_id (todos s ! i) \<noteq> Number p \<longrightarrow> todos s' ! i = todos s ! i) \<and>
            (pb_text body = None \<longrightarrow> todo_text (todos s' ! i) = todo_text (todos s ! i)) \<and>
            (pb_done body = None \<longrightarrow> todo_done (todos s' ! i) = todo_done (todos s ! i)) \<and>
            (todo_id (todos s ! i) = Number p \<longrightarrow>
               (\<forall>x. pb_text body = Some x \<longrightarrow> todo_text (todos s' ! i) = san x) \<and>
               (\<forall>d. pb_done body = Some d \<longrightarrow>
                    todo_done (todos s' ! i) = (if truthy d then 1 else 0)))"
    by (simp add: td)
  from frame len ex exw rows show ?thesis by blast
qed

theorem patch_changes_only_supplied_fields_witness:
  "patch_todo_route id demo_store 1 (Int_lit 1) \<lparr>pb_text = None, pb_done = Some (JS_bool True)\<rparr> =
     (demo_store\<lparr>todos :=
        [\<lparr>todo_id = 1, todo_user_id = 1, todo_text = ''Write tests'', todo_done = 1,
          todo_created_at = ''t1''\<rparr>,
         \<lparr>todo_id = 2, todo_user_id = 2, todo_text = ''Buy milk'', todo_done = 1,
          todo_created_at = ''t2''\<rparr>]\<rparr>,
      Json_ok 200 \<lparr>tv_id = 1, tv_text = ''Write tests'', tv_created_at = ''t1'',
                   tv_done = JS_bool True\<rparr>) \<and>
   todo_text (hd (todos (fst (patch_todo_route id demo_store 1 (Int_lit 1)
       \<lparr>pb_text = None, pb_done = Some (JS_bool True)\<rparr>)))) = todo_text (hd (todos demo_store)) \<and>
   length (todos (fst (patch_todo_route id demo_store 1 (Int_lit 1)
       \<lparr>pb_text = None, pb_done = Some (JS_bool True)\<rparr>))) = 2"
proof -
  let ?s' = "demo_store\<lparr>todos :=
        [\<lparr>todo_id = 1, todo_user_id = 1, todo_text = ''Write tests'', todo_done = 1,
          todo_created_at = ''t1''\<rparr>,
         \<lparr>todo_id = 2, todo_user_id = 2, todo_text = ''Buy milk'', todo_done = 1,
          todo_created_at = ''t2''\<rparr>]\<rparr>"
  have ok: "patch_todo_route id demo_store 1 (Int_lit 1) \<lparr>pb_text = None, pb_done = Some (JS_bool True)\<rparr> =
     (?s', Json_ok 200 \<lparr>tv_id = 1, tv_text = ''Write tests'', tv_created_at = ''t1'',
                   tv_done = JS_bool True\<rparr>)"
    by (simp add: patch_todo_route_def validateRequest_def patch_errors_def patch_todo_handler_def
        select_todo_def update_todos_def view_of_todo_def normalize_done_def not_not_def
        demo_store_def js_number_def)
  note th = patch_changes_only_supplied_fields[OF ok]
  from th have len: "length (todos ?s') = length (todos demo_store)" by blast
  from th have "\<forall>i < length (todos demo_store).
      (pb_text \<lparr>pb_text = None, pb_done = Some (JS_bool True)\<rparr> = None \<longrightarrow>
         todo_text (todos ?s' ! i) = todo_text (todos demo_store ! i))"
    by blast
  then have "todo_text (todos ?s' ! 0) = todo_text (todos demo_store ! 0)"
    by (simp add: demo_store_def)
  then have tx: "todo_text (hd (todos ?s')) = todo_text (hd (todos demo_store))"
    by (simp add: demo_store_def)
  have l2: "length (todos demo_store) = 2" by (simp add: demo_store_def)
  from ok tx len l2 show ?thesis by simp
qed


lemma wf_todos_autoincrement:
  assumes "wf_store s"
  shows "autoincrement (todos_seq s) (map todo_id (todos s)) =
           Inr (largest_rowid (todos_seq s) (map todo_id (todos s)) + 1)"
    and "js_number (largest_rowid (todos_seq s) (map todo_id (todos s)) + 1) =
           largest_rowid (todos_seq s) (map todo_id (todos s)) + 1"
proof -
  from assms have a: "0 \<le> todos_seq s" "todos_seq s \<le> MAX_SAFE_INTEGER"
    "\<forall>i \<in> set (map todo_id (todos s)). i \<le> MAX_SAFE_INTEGER"
    by (auto simp: wf_store_def list_all_iff)
  show "autoincrement (todos_seq s) (map todo_id (todos s)) =
           Inr (largest_rowid (todos_seq s) (map todo_id (todos s)) + 1)"
    by (rule autoincrement_safe(1)[OF a])
  show "js_number (largest_rowid (todos_seq s) (map todo_id (todos s)) + 1) =
           largest_rowid (todos_seq s) (map todo_id (todos s)) + 1"
    by (rule autoincrement_safe(2)[OF a])
qed

lemma create_todo_handler_ok:
  assumes wf: "wf_store s" and user: "has_user s uid"
  shows "create_todo_handler now s uid tx =
     (s\<lparr>todos := todos s @
           [\<lparr>todo_id = largest_rowid (todos_seq s) (map todo_id (todos s)) + 1,
             todo_user_id = uid, todo_text = tx, todo_done = 0, todo_created_at = now\<rparr>],
        todos_seq := largest_rowid (todos_seq s) (map todo_id (todos s)) + 1\<rparr>,
      Json_ok 201 \<lparr>tv_id = largest_rowid (todos_seq s) (map todo_id (todos s)) + 1,
                   tv_text = tx, tv_created_at = now, tv_done = JS_bool False\<rparr>)"
proof -
  let ?n = "largest_rowid (todos_seq s) (map todo_id (todos s)) + 1"
  note ai = wf_todos_autoincrement[OF wf]
  have "\<forall>t \<in> set (todos s). todo_id t \<noteq> ?n"
    using largest_rowid_fresh[of _ "map todo_id (todos s)" "todos_seq s"] by fastforce
  then have none: "find (\<lambda>t. todo_id t = ?n) (todos s) = None"
    by (simp add: find_None_iff)
  have ins: "insert_todo now s uid tx 0 =
      Inr (s\<lparr>todos := todos s @
             [\<lparr>todo_id = ?n, todo_user_id = uid, todo_text = tx, todo_done = 0,
               todo_created_at = now\<rparr>],
           todos_seq := ?n\<rparr>, ?n)"
    using user by (simp add: insert_todo_def ai)
  have z: "js_number 0 = 0" by (simp add: js_number_def)
  show ?thesis
    by (simp add: create_todo_handler_def ins select_todo_def find_append_none[OF none]
        view_of_todo_def normalize_done_def not_not_def ai(2) z)
qed

lemma create_todo_handler_boolean:
  "create_todo_handler now s uid tx = (s', Json_ok st v) \<Longrightarrow> \<exists>b. tv_done v = JS_bool b"
  by (auto simp: create_todo_handler_def internal_error_def normalize_done_def not_not_def
      split: sum.splits option.splits)

lemma create_todo_handler_done:
  assumes wf: "wf_store s" and ok: "create_todo_handler now s uid tx = (s', Json_ok st v)"
  shows "tv_done v = JS_bool False"
proof (cases "has_user s uid")
  case True
  with create_todo_handler_ok[OF wf True, of now tx] ok show ?thesis by auto
next
  case False
  with ok show ?thesis
    by (simp add: create_todo_handler_def insert_todo_def internal_error_def)
qed

lemma create_todo_route_handler:
  "create_todo_route san now s uid tx = (s', Json_ok st v) \<Longrightarrow>
   \<exists>x. tx = Some x \<and> create_todo_handler now s uid (san x) = (s', Json_ok st v)"
  by (cases tx) (simp_all add: create_todo_route_def validateRequest_def split: if_splits)

text \<open>
  C10. The \<^verbatim>\<open>done\<close> field of every todo in an answer is a boolean: the todo of a
  successful create, every todo of a list and the todo of a successful PATCH. In a
  store that satisfies the schema's constraints with its ids within
  \<^verbatim>\<open>Number.MAX_SAFE_INTEGER\<close>, a created todo has \<^verbatim>\<open>done\<close> false, and creating
  succeeds for an existing user and a text of at least one character, storing the
  integer 0.
\<close>

theorem todo_done_is_boolean:
  "(create_todo_route san now s uid tx = (s1, Json_ok st1 v1) \<longrightarrow> (\<exists>b. tv_done v1 = JS_bool b)) \<and>
   (wf_store s \<and> create_todo_route san now s uid tx = (s1, Json_ok st1 v1) \<longrightarrow>
      tv_done v1 = JS_bool False) \<and>
   (wf_store s \<and> has_user s uid \<and> 1 \<le> length t \<longrightarrow>
      (\<exists>s1 v1. create_todo_route san now s uid (Some t) = (s1, Json_ok 201 v1) \<and>
               tv_done v1 = JS_bool False \<and> todo_done (last (todos s1)) = 0)) \<and>
   (\<exists>vs. list_todos s uid = Json_ok 200 vs \<and> (\<forall>v \<in> set vs. \<exists>b. tv_done v = JS_bool b)) \<and>
   (patch_todo_route san s uid p body = (s3, Json_ok st3 v3) \<longrightarrow> (\<exists>b. tv_done v3 = JS_bool b))"
proof (intro conjI impI)
  assume a: "create_todo_route san now s uid tx = (s1, Json_ok st1 v1)"
  from create_todo_route_handler[OF a] create_todo_handler_boolean
  show "\<exists>b. tv_done v1 = JS_bool b" by blast
next
  assume a: "wf_store s \<and> create_todo_route san now s uid tx = (s1, Json_ok st1 v1)"
  then obtain x where "create_todo_handler now s uid (san x) = (s1, Json_ok st1 v1)"
    using create_todo_route_handler by blast
  with a show "tv_done v1 = JS_bool False" using create_todo_handler_done by blast
next
  assume a: "wf_store s \<and> has_user s uid \<and> 1 \<le> length t"
  then have "create_todo_route san now s uid (Some t) = create_todo_handler now s uid (san t)"
    by (simp add: create_todo_route_def validateRequest_def)
  with a create_todo_handler_ok[of s uid now "san t"]
  show "\<exists>s1 v1. create_todo_route san now s uid (Some t) = (s1, Json_ok 201 v1) \<and>
               tv_done v1 = JS_bool False \<and> todo_done (last (todos s1)) = 0"
    by simp
next
  show "\<exists>vs. list_todos s uid = Json_ok 200 vs \<and> (\<forall>v \<in> set vs. \<exists>b. tv_done v = JS_bool b)"
    by (auto simp: list_todos_def normalize_done_def not_not_def)
next
  assume a: "patch_todo_route san s uid p body = (s3, Json_ok st3 v3)"
  from patch_todo_route_ok[OF a] patch_todo_handler_ok obtain u where
    "v3 = normalize_done (view_of_todo u)" by blast
  then show "\<exists>b. tv_done v3 = JS_bool b"
    by (simp add: normalize_done_def not_not_def)
qed

theorem todo_done_is_boolean_witness:
  "wf_store demo_store \<and> has_user demo_store 1 \<and> 1 \<le> length ''Hi'' \<and>
   create_todo_route id ''t9'' demo_store 1 (Some ''Hi'') =
     (demo_store\<lparr>todos := todos demo_store @
         [\<lparr>todo_id = 3, todo_user_id = 1, todo_text = ''Hi'', todo_done = 0,
           todo_created_at = ''t9''\<rparr>], todos_seq := 3\<rparr>,
      Json_ok 201 \<lparr>tv_id = 3, tv_text = ''Hi'', tv_created_at = ''t9'', tv_done = JS_bool False\<rparr>) \<and>
   list_todos demo_store 2 =
     Json_ok 200 [\<lparr>tv_id = 2, tv_text = ''Buy milk'', tv_created_at = ''t2'',
                   tv_done = JS_bool True\<rparr>] \<and>
   snd (patch_todo_route id demo_store 2 (Int_lit 2)
          \<lparr>pb_text = Some ''Buy tea'', pb_done = Some (JS_bool False)\<rparr>) =
     Json_ok 200 \<lparr>tv_id = 2, tv_text = ''Buy tea'', tv_created_at = ''t2'',
                  tv_done = JS_bool False\<rparr>"
proof -
  have u: "has_user demo_store 1" by (simp add: has_user_def demo_store_def)
  have c: "create_todo_route id ''t9'' demo_store 1 (Some ''Hi'') =
     (demo_store\<lparr>todos := todos demo_store @
         [\<lparr>todo_id = 3, todo_user_id = 1, todo_text = ''Hi'', todo_done = 0,
           todo_created_at = ''t9''\<rparr>], todos_seq := 3\<rparr>,
      Json_ok 201 \<lparr>tv_id = 3, tv_text = ''Hi'', tv_created_at = ''t9'', tv_done = JS_bool False\<rparr>)"
    using create_todo_handler_ok[OF wf_demo_store u, of "''t9''" "''Hi''"]
    by (simp add: create_todo_route_def validateRequest_def)
       (simp add: demo_store_def largest_rowid_def)
  have l: "list_todos demo_store 2 =
     Json_ok 200 [\<lparr>tv_id = 2, tv_text = ''Buy milk'', tv_created_at = ''t2'',
                   tv_done = JS_bool True\<rparr>]"
    by (simp add: list_todos_def view_of_todo_def normalize_done_def not_not_def demo_store_def
        js_number_def)
  have p: "snd (patch_todo_route id demo_store 2 (Int_lit 2)
          \<lparr>pb_text = Some ''Buy tea'', pb_done = Some (JS_bool False)\<rparr>) =
     Json_ok 200 \<lparr>tv_id = 2, tv_text = ''Buy tea'', tv_created_at = ''t2'',
                  tv_done = JS_bool False\<rparr>"
    by (simp add: patch_todo_route_def validateRequest_def patch_errors_def patch_todo_handler_def
        select_todo_def update_todos_def view_of_todo_def normalize_done_def not_not_def
        demo_store_def js_number_def)
  note th = todo_done_is_boolean[where san = id and now = "''t9''" and s = demo_store and uid = 1
      and t = "''Hi''"]
  from th u wf_demo_store
  have "\<exists>s1 v1. create_todo_route id ''t9'' demo_store 1 (Some ''Hi'') = (s1, Json_ok 201 v1) \<and>
               tv_done v1 = JS_bool False \<and> todo_done (last (todos s1)) = 0"
    by simp
  with wf_demo_store u c l p show ?thesis by simp
qed

section \<open>Images of a feed entry\<close>

text \<open>
  C6. When the offset is a 64-bit integer, so that the page query runs, the feed
  answers 200 with one entry for every row of the page query, in the same order;
  whatever the stored image texts are, the feed answers 500 only for an offset above
  that. The images of an entry are the empty list when the stored text is
  \<^verbatim>\<open>NULL\<close> or empty, the empty list when \<^verbatim>\<open>JSON.parse\<close> throws on it, and the parsed
  value otherwise. The only thing asked of \<^verbatim>\<open>JSON.parse\<close> is that it reads \<^verbatim>\<open>[]\<close> as
  the empty array.
\<close>
theorem feed_images_decoded:
  assumes empty: "parse ''[]'' = Some (J_arr [])" and offset: "feed_offset qo \<le> MAX_ROWID"
  shows "(status (feed parse s ql qo') = 500 \<longleftrightarrow> MAX_ROWID < feed_offset qo') \<and>
         (\<exists>p. feed parse s ql qo = Json_ok 200 p \<and>
           map fe_id (fp_feed p) =
             map (\<lambda>row. js_number (rental_id (fst row)))
               (feed_rows s (feed_limit ql) (feed_offset qo)) \<and>
           (\<forall>i < length (fp_feed p).
              (rental_images (fst (feed_rows s (feed_limit ql) (feed_offset qo) ! i)) = None \<or>
               rental_images (fst (feed_rows s (feed_limit ql) (feed_offset qo) ! i)) = Some []
                 \<longrightarrow> fe_images (fp_feed p ! i) = J_arr []) \<and>
              (\<forall>t. rental_images (fst (feed_rows s (feed_limit ql) (feed_offset qo) ! i)) = Some t \<and>
                   parse t = None
                 \<longrightarrow> fe_images (fp_feed p ! i) = J_arr []) \<and>
              (\<forall>t v. rental_images (fst (feed_rows s (feed_limit ql) (feed_offset qo) ! i)) = Some t \<and>
                   t \<noteq> [] \<and> parse t = Some v
                 \<longrightarrow> fe_images (fp_feed p ! i) = v)))"
proof -
  let ?rows = "feed_rows s (feed_limit ql) (feed_offset qo)"
  let ?p = "\<lparr>fp_feed = map (feed_entry_of parse s) ?rows, fp_offset = feed_offset qo,
             fp_limit = feed_limit ql, fp_total = js_number (int (length (rentals s))),
             fp_hasMore = (js_number (feed_offset qo + int (length ?rows))
                            < js_number (int (length (rentals s))))\<rparr>"
  have f: "feed parse s ql qo = Json_ok 200 ?p" using offset by (simp add: feed_def Let_def)
  have fail: "status (feed parse s ql qo') = 500 \<longleftrightarrow> MAX_ROWID < feed_offset qo'"
    by (simp add: feed_def Let_def internal_error_def)
  have img: "\<And>row. fe_images (feed_entry_of parse s row) = decode_images parse (rental_images (fst row))"
    by (simp add: feed_entry_of_def split: prod.splits)
  have ids: "map fe_id (fp_feed ?p) = map (\<lambda>row. js_number (rental_id (fst row))) ?rows"
    by (simp add: feed_entry_of_def split: prod.splits)
  have d1: "\<And>im. im = None \<or> im = Some [] \<Longrightarrow> decode_images parse im = J_arr []"
    using empty by (auto simp: decode_images_def)
  have d2: "\<And>t. parse t = None \<Longrightarrow> decode_images parse (Some t) = J_arr []"
    using empty by (simp add: decode_images_def)
  have d3: "\<And>t v. t \<noteq> [] \<Longrightarrow> parse t = Some v \<Longrightarrow> decode_images parse (Some t) = v"
    by (simp add: decode_images_def)
  have each: "\<forall>i < length (fp_feed ?p).
              (rental_images (fst (?rows ! i)) = None \<or> rental_images (fst (?rows ! i)) = Some []
                 \<longrightarrow> fe_images (fp_feed ?p ! i) = J_arr []) \<and>
              (\<forall>t. rental_images (fst (?rows ! i)) = Some t \<and> parse t = None
                 \<longrightarrow> fe_images (fp_feed ?p ! i) = J_arr []) \<and>
              (\<forall>t v. rental_images (fst (?rows ! i)) = Some t \<and> t \<noteq> [] \<and> parse t = Some v
                 \<longrightarrow> fe_images (fp_feed ?p ! i) = v)"
    using d1 d2 d3 by (simp add: img)
  from f ids each have "\<exists>p. feed parse s ql qo = Json_ok 200 p \<and>
           map fe_id (fp_feed p) = map (\<lambda>row. js_number (rental_id (fst row))) ?rows \<and>
           (\<forall>i < length (fp_feed p).
              (rental_images (fst (?rows ! i)) = None \<or> rental_images (fst (?rows ! i)) = Some []
                 \<longrightarrow> fe_images (fp_feed p ! i) = J_arr []) \<and>
              (\<forall>t. rental_images (fst (?rows ! i)) = Some t \<and> parse t = None
                 \<longrightarrow> fe_images (fp_feed p ! i) = J_arr []) \<and>
              (\<forall>t v. rental_images (fst (?rows ! i)) = Some t \<and> t \<noteq> [] \<and> parse t = Some v
                 \<longrightarrow> fe_images (fp_feed p ! i) = v))"
    by blast
  with fail show ?thesis by blast
qed

theorem feed_images_decoded_witness:
  \<open>demo_parse ''[]'' = Some (J_arr []) \<and> feed_offset None \<le> MAX_ROWID \<and>
   map rental_images (rentals demo_store) = [Some ''["/uploads/a.png"]'', Some ''oops'', None] \<and>
   demo_parse ''oops'' = None \<and>
   (case feed demo_parse demo_store None None of
      Json_ok n p \<Rightarrow> n = 200 \<and> map fe_id (fp_feed p) = [3, 2, 1] \<and>
        map fe_images (fp_feed p) = [J_arr [], J_arr [], J_arr [J_str ''/uploads/a.png'']]
    | Json_error n m es \<Rightarrow> False)\<close>
proof -
  have e: "demo_parse ''[]'' = Some (J_arr [])" by (simp add: demo_parse_def)
  have o: "demo_parse ''oops'' = None" by (simp add: demo_parse_def)
  have im: \<open>map rental_images (rentals demo_store) = [Some ''["/uploads/a.png"]'', Some ''oops'', None]\<close>
    by (simp add: demo_store_def)
  have b: "feed_offset None \<le> MAX_ROWID"
    by (simp add: feed_offset_def js_or_def MAX_ROWID_def)
  have rows: "map (\<lambda>row. js_number (rental_id (fst row)))
        (feed_rows demo_store (feed_limit None) (feed_offset None))
      = [3, 2, 1]"
    by (simp add: feed_rows_def feed_limit_def feed_offset_def js_or_def demo_store_def
        js_number_def)
  have imgs: \<open>map (\<lambda>row. rental_images (fst row)) (feed_rows demo_store (feed_limit None) (feed_offset None))
      = [None, Some ''oops'', Some ''["/uploads/a.png"]'']\<close>
    by (simp add: feed_rows_def feed_limit_def feed_offset_def js_or_def demo_store_def)
  have nth: \<open>rental_images (fst (feed_rows demo_store (feed_limit None) (feed_offset None) ! 0)) = None\<close>
    \<open>rental_images (fst (feed_rows demo_store (feed_limit None) (feed_offset None) ! 1)) = Some ''oops''\<close>
    \<open>rental_images (fst (feed_rows demo_store (feed_limit None) (feed_offset None) ! 2))
       = Some ''["/uploads/a.png"]''\<close>
    by (simp_all add: feed_rows_def feed_limit_def feed_offset_def js_or_def demo_store_def)
  have ok: \<open>demo_parse ''["/uploads/a.png"]'' = Some (J_arr [J_str ''/uploads/a.png''])\<close>
    by (simp add: demo_parse_def)
  from feed_images_decoded[where parse = demo_parse and s = demo_store and ql = None and qo = None,
      OF e b]
  obtain p where
    f: "feed demo_parse demo_store None None = Json_ok 200 p"
    and ids0: "map fe_id (fp_feed p) =
        map (\<lambda>row. js_number (rental_id (fst row)))
          (feed_rows demo_store (feed_limit None) (feed_offset None))"
    and each: "\<forall>i < length (fp_feed p).
        (rental_images (fst (feed_rows demo_store (feed_limit None) (feed_offset None) ! i)) = None \<or>
         rental_images (fst (feed_rows demo_store (feed_limit None) (feed_offset None) ! i)) = Some []
           \<longrightarrow> fe_images (fp_feed p ! i) = J_arr []) \<and>
        (\<forall>t. rental_images (fst (feed_rows demo_store (feed_limit None) (feed_offset None) ! i)) = Some t \<and>
             demo_parse t = None
           \<longrightarrow> fe_images (fp_feed p ! i) = J_arr []) \<and>
        (\<forall>t v. rental_images (fst (feed_rows demo_store (feed_limit None) (feed_offset None) ! i)) = Some t \<and>
             t \<noteq> [] \<and> demo_parse t = Some v
           \<longrightarrow> fe_images (fp_feed p ! i) = v)"
    by blast
  from ids0 rows have ids: "map fe_id (fp_feed p) = [3, 2, 1]" by simp
  from ids have len: "length (fp_feed p) = 3"
    by (metis length_map length_Cons list.size(3) numeral_3_eq_3)
  have lt: "0 < length (fp_feed p)" "1 < length (fp_feed p)" "2 < length (fp_feed p)"
    using len by simp_all
  have ne: \<open>''["/uploads/a.png"]'' \<noteq> []\<close> by simp
  from each lt(1) nth(1) have i0: "fe_images (fp_feed p ! 0) = J_arr []" by blast
  from each lt(2) nth(2) o have i1: "fe_images (fp_feed p ! 1) = J_arr []" by blast
  from each lt(3) nth(3) ok ne have i2: "fe_images (fp_feed p ! 2) = J_arr [J_str ''/uploads/a.png'']"
    by blast
  have "map fe_images (fp_feed p) = [J_arr [], J_arr [], J_arr [J_str ''/uploads/a.png'']]"
    using len i0 i1 i2
    by (simp add: list_eq_iff_nth_eq numeral_3_eq_3 numeral_2_eq_2 less_Suc_eq)
  with e b o im f ids show ?thesis by simp
qed


section \<open>The handlers keep the schema's constraints\<close>

text \<open>
  The constraints collected in \<open>wf_store\<close> are assumed of the store a request starts
  from. Every modelled handler that writes hands back a store that satisfies them
  again, as long as the id an insert hands out is still within
  \<^verbatim>\<open>Number.MAX_SAFE_INTEGER\<close>.
\<close>

lemma like_handler_wf:
  assumes wf: "wf_store s"
    and room: "largest_rowid (likes_seq s) (map like_id (likes s)) < MAX_SAFE_INTEGER"
  shows "wf_store (fst (like_handler now s uid rid))"
proof (cases "like_read s uid rid")
  case Rental_missing
  with wf show ?thesis by (simp add: like_handler_def like_write_def)
next
  case (Liked l)
  with delete_like_wf[OF wf] show ?thesis by (simp add: like_handler_def like_write_def)
next
  case Not_liked
  then have "select_like s rid uid = None" by (auto simp: like_read_def split: option.splits)
  then have absent: "\<not> has_like s rid uid" by (simp add: select_like_None)
  show ?thesis
  proof (cases "insert_like now s rid uid")
    case (Inl e)
    with wf Not_liked show ?thesis by (simp add: like_handler_def like_write_def)
  next
    case (Inr s')
    let ?n = "largest_rowid (likes_seq s) (map like_id (likes s)) + 1"
    have fresh: "?n \<notin> like_id ` set (likes s)"
      using largest_rowid_fresh[of _ "map like_id (likes s)" "likes_seq s"] by fastforce
    have pair: "(rid, uid) \<notin> (\<lambda>l. (like_rental_id l, like_user_id l)) ` set (likes s)"
      using absent by (auto simp: has_like_def)
    have pos: "0 < ?n"
      using wf largest_rowid_pos[of "likes_seq s" "map like_id (likes s)"]
      by (simp add: wf_store_def)
    from room have le: "?n \<le> MAX_SAFE_INTEGER" by simp
    from Inr have s': "s' = s\<lparr>likes := likes s @ [\<lparr>like_id = ?n, like_rental_id = rid,
        like_user_id = uid, like_created_at = now\<rparr>], likes_seq := ?n\<rparr>"
      by (simp add: insert_like_def wf_likes_autoincrement(1)[OF wf] split: if_splits)
    have "wf_store s'"
      unfolding s' using wf fresh pair pos le by (simp add: wf_store_def)
    with Inr Not_liked show ?thesis by (simp add: like_handler_def like_write_def)
  qed
qed

lemma create_todo_handler_wf:
  assumes wf: "wf_store s"
    and room: "largest_rowid (todos_seq s) (map todo_id (todos s)) < MAX_SAFE_INTEGER"
    and uid: "\<bar>uid\<bar> \<le> MAX_SAFE_INTEGER"
  shows "wf_store (fst (create_todo_handler now s uid tx))"
proof (cases "has_user s uid")
  case False
  with wf show ?thesis by (simp add: create_todo_handler_def insert_todo_def)
next
  case True
  let ?n = "largest_rowid (todos_seq s) (map todo_id (todos s)) + 1"
  have fresh: "?n \<notin> todo_id ` set (todos s)"
    using largest_rowid_fresh[of _ "map todo_id (todos s)" "todos_seq s"] by fastforce
  have pos: "0 < ?n"
    using wf largest_rowid_pos[of "todos_seq s" "map todo_id (todos s)"]
    by (simp add: wf_store_def)
  from room have le: "?n \<le> MAX_SAFE_INTEGER" by simp
  have "wf_store (s\<lparr>todos := todos s @
           [\<lparr>todo_id = ?n, todo_user_id = uid,
             todo_text = tx, todo_done = 0, todo_created_at = now\<rparr>],
        todos_seq := ?n\<rparr>)"
    using wf fresh pos le uid by (simp add: wf_store_def)
  then show ?thesis by (simp add: create_todo_handler_ok[OF wf True])
qed

lemma fold_assign_keeps:
  "todo_id (fold assign us t) = todo_id t \<and> todo_user_id (fold assign us t) = todo_user_id t"
proof (induction us arbitrary: t)
  case Nil show ?case by simp
next
  case (Cons a us) show ?case by (cases a) (simp_all add: Cons)
qed

lemma update_todos_wf:
  assumes wf: "wf_store s"
  shows "wf_store (update_todos s us tid)"
proof -
  have ids: "map todo_id (map (\<lambda>t. if todo_id t = tid then fold assign us t else t) (todos s))
      = map todo_id (todos s)"
    by (simp add: fold_assign_keeps)
  have pos: "list_all (\<lambda>t. 0 < todo_id t \<and> todo_id t \<le> MAX_SAFE_INTEGER \<and>
                   \<bar>todo_user_id t\<bar> \<le> MAX_SAFE_INTEGER)
      (map (\<lambda>t. if todo_id t = tid then fold assign us t else t) (todos s))"
    using wf by (auto simp: wf_store_def list_all_iff fold_assign_keeps)
  from wf have "distinct (map todo_id (todos s))" by (simp add: wf_store_def)
  with ids have "distinct (map todo_id
      (map (\<lambda>t. if todo_id t = tid then fold assign us t else t) (todos s)))"
    by (simp only:)
  with wf pos show ?thesis by (simp add: update_todos_def wf_store_def)
qed

lemma patch_todo_handler_wf:
  assumes wf: "wf_store s"
  shows "wf_store (fst (patch_todo_handler s uid tid body))"
  using wf update_todos_wf[OF wf]
  by (simp add: patch_todo_handler_def Let_def split: option.splits)

lemma delete_todo_handler_wf:
  assumes wf: "wf_store s"
  shows "wf_store (fst (delete_todo_handler s uid tid))"
proof -
  from wf have "wf_store (s\<lparr>todos := filter (\<lambda>t. todo_id t \<noteq> tid) (todos s)\<rparr>)"
    by (simp add: wf_store_def distinct_map_filter list_all_iff)
  with wf show ?thesis by (simp add: delete_todo_handler_def split: option.splits)
qed

lemma comments_handler_wf:
  assumes wf: "wf_store s"
    and room: "largest_rowid (comments_seq s) (map comment_id (comments s)) < MAX_SAFE_INTEGER"
  shows "wf_store (fst (comments_handler now s uid rid tx))"
proof -
  have pos: "0 < largest_rowid (comments_seq s) (map comment_id (comments s)) + 1"
    using wf largest_rowid_pos[of "comments_seq s" "map comment_id (comments s)"]
    by (simp add: wf_store_def)
  have "\<And>s' n. insert_comment now s rid uid tx = Inr (s', n) \<Longrightarrow> wf_store s'"
    using wf pos room
    by (auto simp: insert_comment_def autoincrement_def wf_store_def split: if_splits)
  with wf show ?thesis
    by (auto simp: comments_handler_def split: option.splits sum.splits)
qed

text \<open>
  The rounding at work, above the exact range: \<^verbatim>\<open>Number\<close> reads the literal
  \<open>2 ^ 53 + 1\<close> as \<open>2 ^ 53\<close>, and the largest rowid as \<open>2 ^ 63\<close>.
\<close>

lemma js_number_rounds:
  "Number (Int_lit 9007199254740993) = 9007199254740992"
  "js_number 9007199254740995 = 9007199254740996"
  "js_number MAX_ROWID = 9223372036854775808"
  by (simp_all add: js_number_def round_magnitude_def MAX_ROWID_def Let_def)

end
